theory Spec2Isabelle
  imports Complex_Main
begin

section \<open>JavaScript values used by the desktop shell\<close>

text \<open>
  A JavaScript number that holds a port is either \<open>NaN\<close> or an integer. The model keeps
  the mathematical integer; the rounding of integers beyond \<open>2^53\<close> to a double is not
  modelled, and \<open>-0\<close> is \<open>Num 0\<close>.
\<close>

datatype jsnum = NaN | Num int

datatype js_error = Error string | SyntaxError string | TypeError string | AbortError string

text \<open>The \<open>message\<close> property of an error object.\<close>

fun error_message :: "js_error \<Rightarrow> string" where
  "error_message (Error m) = m"
| "error_message (SyntaxError m) = m"
| "error_message (TypeError m) = m"
| "error_message (AbortError m) = m"

text \<open>\<open>Number.prototype.toString\<close> on a non-negative integer: its decimal digits.\<close>

fun decimal :: "nat \<Rightarrow> string" where
  "decimal n =
     (if n < 10 then [''0123456789'' ! n]
      else decimal (n div 10) @ [''0123456789'' ! (n mod 10)])"

declare decimal.simps [simp del]

text \<open>\<open>String.prototype.includes\<close>.\<close>

fun str_includes :: "string \<Rightarrow> string \<Rightarrow> bool" where
  "str_includes [] pat = (pat = [])"
| "str_includes (c # cs) pat = (take (length pat) (c # cs) = pat \<or> str_includes cs pat)"

datatype json =
    JNull
  | JBool bool
  | JNum rat
  | JStr string
  | JArr "json list"
  | JObj "(string \<times> json) list"

datatype 'a promise = Pending | Fulfilled 'a | Rejected js_error

text \<open>
  Strings are lists of code units below 256. \<open>is_white_space\<close> is the part of the
  ECMAScript classes WhiteSpace and LineTerminator that lies in that range: TAB, LF, VT, FF,
  CR, SPACE and NBSP.
\<close>

definition is_white_space :: "char \<Rightarrow> bool" where
  "is_white_space c = ((of_char c :: nat) \<in> set [9, 10, 11, 12, 13, 32, 160])"

text \<open>\<open>String.prototype.trim\<close>.\<close>

definition trim :: "string \<Rightarrow> string" where
  "trim s = rev (dropWhile is_white_space (rev (dropWhile is_white_space s)))"

text \<open>The value of a character as a digit: \<open>0-9\<close>, then \<open>a-z\<close> and \<open>A-Z\<close> as 10 to 35.\<close>

definition digit_value :: "char \<Rightarrow> nat option" where
  "digit_value c =
     (let n = (of_char c :: nat) in
      if 48 \<le> n \<and> n \<le> 57 then Some (n - 48)
      else if 97 \<le> n \<and> n \<le> 122 then Some (n - 87)
      else if 65 \<le> n \<and> n \<le> 90 then Some (n - 55)
      else None)"

definition is_radix_digit :: "nat \<Rightarrow> char \<Rightarrow> bool" where
  "is_radix_digit R c = (case digit_value c of Some d \<Rightarrow> d < R | None \<Rightarrow> False)"

definition radix_value :: "nat \<Rightarrow> string \<Rightarrow> nat" where
  "radix_value R Z = foldl (\<lambda>acc c. acc * R + the (digit_value c)) 0 Z"

text \<open>
  \<open>parseInt(string)\<close> with no radix argument, after ECMAScript: skip leading white
  space, read an optional sign, switch to radix 16 after a \<open>0x\<close> or \<open>0X\<close> prefix, take
  the longest run of digits of the radix, and answer \<open>NaN\<close> when that run is empty.
\<close>

definition parseInt :: "string \<Rightarrow> jsnum" where
  "parseInt inputString =
     (let S = dropWhile is_white_space inputString;
          negative = (S \<noteq> [] \<and> hd S = CHR ''-'');
          S1 = (if S \<noteq> [] \<and> (hd S = CHR ''+'' \<or> hd S = CHR ''-'') then tl S else S);
          hex = (take 2 S1 = ''0x'' \<or> take 2 S1 = ''0X'');
          R = (if hex then 16 else 10);
          S2 = (if hex then drop 2 S1 else S1);
          Z = takeWhile (is_radix_digit R) S2
      in if Z = [] then NaN
         else Num ((if negative then - 1 else 1) * int (radix_value R Z)))"

text \<open>
  The regular expression \<open>/Auto-selected port: (\d+)/\<close> applied with \<open>String.match\<close>:
  the leftmost position where the literal text is followed by at least one decimal digit;
  the answer is capture group 1, the longest run of digits there.
\<close>

definition port_announcement :: string where
  "port_announcement = ''Auto-selected port: ''"

definition is_decimal_digit :: "char \<Rightarrow> bool" where
  "is_decimal_digit c = (48 \<le> (of_char c :: nat) \<and> (of_char c :: nat) \<le> 57)"

fun portMatch :: "string \<Rightarrow> string option" where
  "portMatch [] = None"
| "portMatch (c # cs) =
     (let rest = drop (length port_announcement) (c # cs) in
      if take (length port_announcement) (c # cs) = port_announcement
         \<and> takeWhile is_decimal_digit rest \<noteq> []
      then Some (takeWhile is_decimal_digit rest)
      else portMatch cs)"

section \<open>The main process: main-working.js\<close>

subsection \<open>Objects and global state\<close>

datatype signal = SIGTERM | SIGKILL

text \<open>
  A \<open>ChildProcess\<close> object. \<open>killed\<close> is Node's flag of that name: it is set when
  \<open>kill()\<close> delivered a signal, not when the process ended. \<open>exited\<close> says that the
  operating-system process is gone.
\<close>

record child_process =
  killed :: bool
  exited :: bool

datatype ready_state = CONNECTING | OPEN | CLOSING | CLOSED

text \<open>
  A \<open>WebSocket\<close> object. Its first \<open>message\<close> listener is always the one that
  \<open>connectWebSocket\<close> registers; \<open>listeners\<close> holds, in registration order, the
  requests whose \<open>responseHandler\<close> is attached after it.
\<close>

record websocket =
  readyState :: ready_state
  listeners :: "nat list"

text \<open>The callbacks that the file passes to \<open>setTimeout\<close>.\<close>

datatype callback =
    StartupGrace
  | ForceKill
  | Reconnect
  | RequestTimeout nat

text \<open>
  What \<open>mainWindow.webContents.send\<close> carries. In a \<open>backend-status\<close> message
  \<open>pythonRunning\<close> is \<open>None\<close> when the expression
  \<open>pythonProcess && !pythonProcess.killed\<close> is \<open>null\<close>, and \<open>port\<close> is \<open>None\<close> when
  the field is absent.
\<close>

datatype notification =
    BackendStatus bool "bool option" "jsnum option"
  | BackendMessage json

record http_request =
  port :: jsnum
  path :: string
  http_method :: string
  body :: "json option"
  timeoutMs :: "nat option"

text \<open>
  The module-level variables of main-working.js (\<open>pythonProcess\<close>, \<open>ws\<close>,
  \<open>isQuitting\<close>, \<open>currentPort\<close>, \<open>mainWindow\<close>, \<open>store\<close>), the objects they refer
  to (\<open>procs\<close>, \<open>socks\<close>, addressed by index), the pending timers with their delay in
  milliseconds, the promises returned by \<open>sendToPython\<close>, and what the process has emitted:
  signals, WebSocket frames, window notifications, HTTP requests and exceptions that left a
  listener. Console output is not modelled.
\<close>

record main_process =
  pythonProcess :: "nat option"
  ws :: "nat option"
  isQuitting :: bool
  currentPort :: jsnum
  mainWindow :: bool
  store :: "string \<Rightarrow> json option"
  procs :: "child_process list"
  socks :: "websocket list"
  timers :: "(nat \<times> callback) list"
  requests :: "json promise list"
  signals :: "(nat \<times> signal) list"
  frames_out :: "(nat \<times> json) list"
  notifications :: "notification list"
  http_out :: "http_request list"
  uncaught :: "js_error list"

text \<open>The state when the module has been loaded: lines 11 to 16.\<close>

definition initial :: "(string \<Rightarrow> json option) \<Rightarrow> main_process" where
  "initial st =
     \<lparr> pythonProcess = None, ws = None, isQuitting = False, currentPort = Num 8000,
       mainWindow = False, store = st, procs = [], socks = [], timers = [], requests = [],
       signals = [], frames_out = [], notifications = [], http_out = [], uncaught = [] \<rparr>"

definition setTimeout :: "nat \<Rightarrow> callback \<Rightarrow> main_process \<Rightarrow> main_process" where
  "setTimeout ms cb s = s\<lparr>timers := timers s @ [(ms, cb)]\<rparr>"

definition clearTimeout :: "callback \<Rightarrow> main_process \<Rightarrow> main_process" where
  "clearTimeout cb s = s\<lparr>timers := filter (\<lambda>t. snd t \<noteq> cb) (timers s)\<rparr>"

definition send_to_window :: "notification \<Rightarrow> main_process \<Rightarrow> main_process" where
  "send_to_window n s = s\<lparr>notifications := notifications s @ [n]\<rparr>"

text \<open>
  \<open>ChildProcess.kill(signal)\<close> as Node implements it: a process that is gone gets no
  signal and the call answers false; otherwise the signal is delivered and \<open>killed\<close>
  becomes true.
\<close>

definition kill :: "nat \<Rightarrow> signal \<Rightarrow> main_process \<Rightarrow> main_process" where
  "kill p sig s =
     (if p < length (procs s) \<and> \<not> exited (procs s ! p)
      then s\<lparr>procs := (procs s)[p := (procs s ! p)\<lparr>killed := True\<rparr>],
             signals := signals s @ [(p, sig)]\<rparr>
      else s)"

subsection \<open>Backend process supervisor\<close>

text \<open>What the environment answers to \<open>spawn\<close> and to the read of the port file.\<close>

datatype spawn_result = Spawned | SpawnThrew js_error

datatype port_file = NoPortFile | PortFile string | PortFileUnreadable js_error

text \<open>The \<open>data\<close> listener of the child's standard output, lines 189 to 204.\<close>

definition on_stdout_data :: "string \<Rightarrow> main_process \<Rightarrow> main_process" where
  "on_stdout_data output s =
     (case portMatch output of
        Some digits \<Rightarrow> s\<lparr>currentPort := parseInt digits\<rparr>
      | None \<Rightarrow> s)"

text \<open>The \<open>close\<close> listener of the child, lines 210 to 218.\<close>

definition on_process_close :: "main_process \<Rightarrow> main_process" where
  "on_process_close s =
     (if mainWindow s then send_to_window (BackendStatus False (Some False) None) s else s)"

text \<open>
  \<open>startPythonBackend\<close> up to its \<open>await\<close>, lines 172 to 225. The body is the
  \<open>try\<close> block: \<open>Inl\<close> is an exception thrown inside it, \<open>Inr None\<close> is the suspension at
  the five-second timer, \<open>Inr (Some b)\<close> is \<open>return b\<close>.
\<close>

definition startPythonBackend_body ::
  "bool \<Rightarrow> spawn_result \<Rightarrow> main_process \<Rightarrow> (js_error + bool option) \<times> main_process" where
  "startPythonBackend_body script_exists sp s =
     (if \<not> script_exists then (Inr (Some False), s)
      else case sp of
        SpawnThrew e \<Rightarrow> (Inl e, s)
      | Spawned \<Rightarrow>
          (Inr None,
           setTimeout 5000 StartupGrace
             (s\<lparr>pythonProcess := Some (length (procs s)),
                procs := procs s @ [\<lparr>killed = False, exited = False\<rparr>]\<rparr>)))"

text \<open>The \<open>try\<close>/\<open>catch\<close> around it, lines 242 to 245: the promise of the async function.\<close>

definition startPythonBackend ::
  "bool \<Rightarrow> spawn_result \<Rightarrow> main_process \<Rightarrow> bool promise \<times> main_process" where
  "startPythonBackend script_exists sp s =
     (case startPythonBackend_body script_exists sp s of
        (Inl e, s') \<Rightarrow> (Fulfilled False, s')
      | (Inr None, s') \<Rightarrow> (Pending, s')
      | (Inr (Some b), s') \<Rightarrow> (Fulfilled b, s'))"

text \<open>
  The inner \<open>try\<close> of lines 228 to 237: \<open>existsSync\<close>, \<open>readFileSync\<close>,
  \<open>parseInt(portData.trim())\<close>; a failed read is caught and changes nothing.
\<close>

definition read_port_file :: "port_file \<Rightarrow> main_process \<Rightarrow> main_process" where
  "read_port_file pf s =
     (case pf of
        NoPortFile \<Rightarrow> s
      | PortFile portData \<Rightarrow> s\<lparr>currentPort := parseInt (trim portData)\<rparr>
      | PortFileUnreadable e \<Rightarrow> s)"

text \<open>The continuation of \<open>startPythonBackend\<close> when the five-second timer fires.\<close>

definition startPythonBackend_resume ::
  "port_file \<Rightarrow> main_process \<Rightarrow> bool promise \<times> main_process" where
  "startPythonBackend_resume pf s =
     (Fulfilled True, read_port_file pf (s\<lparr>timers := remove1 (5000, StartupGrace) (timers s)\<rparr>))"

text \<open>
  A whole start: the spawn, the chunks of standard output that arrive during the delay, then
  the read of the port file.
\<close>

definition start_backend ::
  "bool \<Rightarrow> spawn_result \<Rightarrow> string list \<Rightarrow> port_file \<Rightarrow> main_process
     \<Rightarrow> bool promise \<times> main_process" where
  "start_backend script_exists sp chunks pf s =
     (case startPythonBackend script_exists sp s of
        (Pending, s') \<Rightarrow> startPythonBackend_resume pf (foldl (\<lambda>t out. on_stdout_data out t) s' chunks)
      | (r, s') \<Rightarrow> (r, s'))"

text \<open>\<open>WebSocket.close()\<close>: a socket that is not yet closed starts closing.\<close>

definition ws_close :: "nat \<Rightarrow> main_process \<Rightarrow> main_process" where
  "ws_close w s =
     (if w < length (socks s) \<and> readyState (socks s ! w) \<noteq> CLOSED
      then s\<lparr>socks := (socks s)[w := (socks s ! w)\<lparr>readyState := CLOSING\<rparr>]\<rparr>
      else s)"

text \<open>\<open>cleanup\<close>, lines 536 to 561.\<close>

definition cleanup :: "main_process \<Rightarrow> main_process" where
  "cleanup s =
     (let s1 = (case ws s of Some w \<Rightarrow> (ws_close w s)\<lparr>ws := None\<rparr> | None \<Rightarrow> s)
      in case pythonProcess s1 of
           Some p \<Rightarrow> (setTimeout 5000 ForceKill (kill p SIGTERM s1))\<lparr>pythonProcess := None\<rparr>
         | None \<Rightarrow> s1)"

text \<open>
  The callback of the timer that \<open>cleanup\<close> arms, lines 550 to 555. It reads the
  module-level variable \<open>pythonProcess\<close> when it runs.
\<close>

definition force_kill :: "main_process \<Rightarrow> main_process" where
  "force_kill s =
     (case pythonProcess s of
        Some p \<Rightarrow> if \<not> killed (procs s ! p) then kill p SIGKILL s else s
      | None \<Rightarrow> s)"

text \<open>The five-second timer of \<open>cleanup\<close> fires, if it is pending.\<close>

definition fire_force_kill :: "main_process \<Rightarrow> main_process" where
  "fire_force_kill s =
     (if (5000, ForceKill) \<in> set (timers s)
      then force_kill (s\<lparr>timers := remove1 (5000, ForceKill) (timers s)\<rparr>)
      else s)"

subsection \<open>Live connection\<close>

text \<open>
  \<open>new WebSocket\<close> throws on a URL that is not valid. With the port written into
  \<open>ws://127.0.0.1:<port>/ws\<close> the URL is valid when the port is an integer from 0 to 65535.
\<close>

definition valid_port :: "jsnum \<Rightarrow> bool" where
  "valid_port p = (case p of NaN \<Rightarrow> False | Num n \<Rightarrow> 0 \<le> n \<and> n \<le> 65535)"

text \<open>
  \<open>connectWebSocket\<close>, lines 301 to 362: a new socket becomes the value of \<open>ws\<close>; an
  exception of the constructor is caught and leaves \<open>ws\<close> as it was. The four listeners it
  registers are the functions \<open>on_open\<close>, \<open>on_message\<close>, \<open>on_close\<close> and \<open>on_error\<close>
  below; they read only module-level variables.
\<close>

definition connectWebSocket :: "main_process \<Rightarrow> main_process" where
  "connectWebSocket s =
     (if valid_port (currentPort s)
      then s\<lparr>ws := Some (length (socks s)),
             socks := socks s @ [\<lparr>readyState = CONNECTING, listeners = []\<rparr>]\<rparr>
      else s)"

text \<open>\<open>store.get(key, defaultValue)\<close>.\<close>

definition store_get :: "string \<Rightarrow> json \<Rightarrow> main_process \<Rightarrow> json" where
  "store_get key defaultValue s = (case store s key of Some v \<Rightarrow> v | None \<Rightarrow> defaultValue)"

text \<open>The object \<open>settingsData\<close> of \<open>syncSettingsWithBackend\<close>, lines 253 to 259.\<close>

definition settingsData :: "main_process \<Rightarrow> json" where
  "settingsData s =
     JObj [(''jarvis-ai-model'', store_get ''jarvis-ai-model'' (JStr ''orca-mini-3b-gguf2-q4_0.gguf'') s),
           (''jarvis-voice-enabled'', store_get ''jarvis-voice-enabled'' (JBool True) s),
           (''jarvis-auto-start'', store_get ''jarvis-auto-start'' (JBool False) s),
           (''jarvis-backend-port'', store_get ''jarvis-backend-port'' (JStr ''8000'') s),
           (''jarvis-theme'', store_get ''jarvis-theme'' (JStr ''dark'') s)]"

text \<open>
  \<open>syncSettingsWithBackend\<close>, lines 248 to 299. \<open>fetch_available\<close> says that
  \<open>globalThis.fetch\<close> or the import of node-fetch gave a function; without one the
  function returns before any request. What the backend answers is only logged, and every
  exception is caught, so the one effect is the request.
\<close>

definition syncSettingsWithBackend :: "bool \<Rightarrow> main_process \<Rightarrow> main_process" where
  "syncSettingsWithBackend fetch_available s =
     (if fetch_available
      then s\<lparr>http_out := http_out s @
               [\<lparr>port = currentPort s, path = ''/settings/sync-frontend'', http_method = ''POST'',
                 body = Some (settingsData s), timeoutMs = None\<rparr>]\<rparr>
      else s)"

text \<open>The \<open>open\<close> listener, lines 306 to 318.\<close>

definition on_open :: "bool \<Rightarrow> main_process \<Rightarrow> main_process" where
  "on_open fetch_available s =
     syncSettingsWithBackend fetch_available
       (if mainWindow s
        then send_to_window (BackendStatus True (Some True) (Some (currentPort s))) s
        else s)"

text \<open>
  An inbound frame is given by what \<open>JSON.parse\<close> makes of its data: \<open>Inl\<close> the
  exception it throws, \<open>Inr\<close> the value it returns.
\<close>

type_synonym frame = "js_error + json"

text \<open>The \<open>message\<close> listener of \<open>connectWebSocket\<close>, lines 320 to 329.\<close>

definition on_message :: "frame \<Rightarrow> main_process \<Rightarrow> main_process" where
  "on_message data s =
     (case data of
        Inl e \<Rightarrow> s
      | Inr msg \<Rightarrow> if mainWindow s then send_to_window (BackendMessage msg) s else s)"

text \<open>The value of \<open>pythonProcess && !pythonProcess.killed\<close>.\<close>

definition pythonRunning :: "main_process \<Rightarrow> bool option" where
  "pythonRunning s =
     (case pythonProcess s of None \<Rightarrow> None | Some p \<Rightarrow> Some (\<not> killed (procs s ! p)))"

text \<open>The \<open>close\<close> and \<open>error\<close> listeners, lines 331 to 357, and the callback of their timers.\<close>

definition on_close :: "main_process \<Rightarrow> main_process" where
  "on_close s =
     setTimeout 5000 Reconnect
       (if mainWindow s
        then send_to_window (BackendStatus False (pythonRunning s) (Some (currentPort s))) s
        else s)"

definition on_error :: "main_process \<Rightarrow> main_process" where
  "on_error s = setTimeout 2000 Reconnect s"

definition reconnect :: "main_process \<Rightarrow> main_process" where
  "reconnect s = (if \<not> isQuitting s then connectWebSocket s else s)"

text \<open>
  A promise is settled by the first call of \<open>resolve\<close> or \<open>reject\<close>; later calls do
  nothing.
\<close>

definition settle :: "nat \<Rightarrow> json promise \<Rightarrow> main_process \<Rightarrow> main_process" where
  "settle k outcome s =
     (if k < length (requests s) \<and> requests s ! k = Pending
      then s\<lparr>requests := (requests s)[k := outcome]\<rparr>
      else s)"

text \<open>
  \<open>ws.off('message', responseHandler)\<close> inside the handler of request \<open>k\<close>: the socket
  is the one that \<open>ws\<close> names when the handler runs, and the call throws when \<open>ws\<close> is
  \<open>null\<close>.
\<close>

definition ws_off :: "nat \<Rightarrow> main_process \<Rightarrow> js_error + main_process" where
  "ws_off k s =
     (case ws s of
        None \<Rightarrow> Inl (TypeError ''Cannot read properties of null'')
      | Some w \<Rightarrow>
          Inr (s\<lparr>socks := (socks s)[w := (socks s ! w)\<lparr>listeners := remove1 k (listeners (socks s ! w))\<rparr>]\<rparr>))"

text \<open>
  \<open>response.type\<close>: reading a property of \<open>null\<close> throws; an object gives the value
  stored under the key, if any; every other value gives \<open>undefined\<close>, here \<open>None\<close>.
\<close>

fun get_type :: "json \<Rightarrow> js_error + json option" where
  "get_type JNull = Inl (TypeError ''Cannot read properties of null'')"
| "get_type (JObj props) = Inr (map_of props ''type'')"
| "get_type v = Inr None"

text \<open>
  \<open>responseHandler\<close> of request \<open>k\<close>, lines 384 to 397. The first component of the
  result is an exception that leaves the handler.
\<close>

definition responseHandler :: "nat \<Rightarrow> frame \<Rightarrow> main_process \<Rightarrow> js_error option \<times> main_process" where
  "responseHandler k data s =
     (let tried =
        (case data of
           Inl e \<Rightarrow> (Inl e, s)
         | Inr response \<Rightarrow>
             (case get_type response of
                Inl e \<Rightarrow> (Inl e, s)
              | Inr t \<Rightarrow>
                  if t = Some (JStr ''chat_response'')
                  then (let s1 = clearTimeout (RequestTimeout k) s in
                        case ws_off k s1 of
                          Inl e \<Rightarrow> (Inl e, s1)
                        | Inr s2 \<Rightarrow> (Inr (), settle k (Fulfilled response) s2))
                  else (Inr (), s)))
      in case tried of
           (Inr u, s') \<Rightarrow> (None, s')
         | (Inl error, s') \<Rightarrow>
             (let s1 = clearTimeout (RequestTimeout k) s' in
              case ws_off k s1 of
                Inl e \<Rightarrow> (Some e, s1)
              | Inr s2 \<Rightarrow> (None, settle k (Rejected error) s2)))"

text \<open>
  The \<open>message\<close> event of a socket: its listeners run in the order of registration, from
  the list as it was when the event began; an exception that leaves a listener ends the
  event.
\<close>

fun run_handlers :: "nat list \<Rightarrow> frame \<Rightarrow> main_process \<Rightarrow> main_process" where
  "run_handlers [] data s = s"
| "run_handlers (k # ks) data s =
     (case responseHandler k data s of
        (Some e, s') \<Rightarrow> s'\<lparr>uncaught := uncaught s' @ [e]\<rparr>
      | (None, s') \<Rightarrow> run_handlers ks data s')"

definition socket_message :: "nat \<Rightarrow> frame \<Rightarrow> main_process \<Rightarrow> main_process" where
  "socket_message w data s =
     (if w < length (socks s)
      then run_handlers (listeners (socks s ! w)) data (on_message data s)
      else s)"

text \<open>The outbound chat frame, lines 371 to 377.\<close>

definition fullMessage :: "json \<Rightarrow> nat \<Rightarrow> string \<Rightarrow> json" where
  "fullMessage msg now stamp =
     JObj [(''id'', JStr (decimal now)), (''type'', JStr ''chat''), (''message'', msg),
           (''timestamp'', JStr stamp)]"

text \<open>
  \<open>sendToPython\<close>, lines 364 to 402, up to the return of the promise. \<open>now\<close> is
  \<open>Date.now()\<close> and \<open>stamp\<close> is \<open>new Date().toISOString()\<close>. The result is the index of
  the promise in \<open>requests\<close>. A \<open>ws\<close> that names no socket counts as not open.
\<close>

definition sendToPython :: "json \<Rightarrow> nat \<Rightarrow> string \<Rightarrow> main_process \<Rightarrow> nat \<times> main_process" where
  "sendToPython msg now stamp s =
     (let k = length (requests s);
          not_connected = (k, s\<lparr>requests := requests s @ [Rejected (Error ''WebSocket not connected'')]\<rparr>)
      in case ws s of
           None \<Rightarrow> not_connected
         | Some w \<Rightarrow>
             if \<not> (w < length (socks s) \<and> readyState (socks s ! w) = OPEN) then not_connected
             else
               (let s1 = s\<lparr>requests := requests s @ [Pending]\<rparr>;
                    s2 = setTimeout 30000 (RequestTimeout k) s1;
                    s3 = s2\<lparr>socks := (socks s2)[w := (socks s2 ! w)\<lparr>listeners := listeners (socks s2 ! w) @ [k]\<rparr>]\<rparr>
                in (k, s3\<lparr>frames_out := frames_out s3 @ [(w, fullMessage msg now stamp)]\<rparr>)))"

text \<open>The callback of the thirty-second timer of request \<open>k\<close>, lines 380 to 382.\<close>

definition request_timeout :: "nat \<Rightarrow> main_process \<Rightarrow> main_process" where
  "request_timeout k s = settle k (Rejected (Error ''Request timeout'')) s"

definition fire_request_timeout :: "nat \<Rightarrow> main_process \<Rightarrow> main_process" where
  "fire_request_timeout k s =
     (if (30000, RequestTimeout k) \<in> set (timers s)
      then request_timeout k (s\<lparr>timers := remove1 (30000, RequestTimeout k) (timers s)\<rparr>)
      else s)"

text \<open>The reconnect timers of \<open>on_close\<close> (5000 ms) and \<open>on_error\<close> (2000 ms).\<close>

definition fire_reconnect :: "nat \<Rightarrow> main_process \<Rightarrow> main_process" where
  "fire_reconnect ms s =
     (if (ms, Reconnect) \<in> set (timers s)
      then reconnect (s\<lparr>timers := remove1 (ms, Reconnect) (timers s)\<rparr>)
      else s)"

text \<open>What the network does to a socket, followed by the listener of the event.\<close>

definition set_readyState :: "nat \<Rightarrow> ready_state \<Rightarrow> main_process \<Rightarrow> main_process" where
  "set_readyState w r s =
     (if w < length (socks s)
      then s\<lparr>socks := (socks s)[w := (socks s ! w)\<lparr>readyState := r\<rparr>]\<rparr>
      else s)"

definition socket_open :: "nat \<Rightarrow> bool \<Rightarrow> main_process \<Rightarrow> main_process" where
  "socket_open w fetch_available s = on_open fetch_available (set_readyState w OPEN s)"

definition socket_close :: "nat \<Rightarrow> main_process \<Rightarrow> main_process" where
  "socket_close w s = on_close (set_readyState w CLOSED s)"

subsection \<open>Request handlers of the inter-process surface\<close>

text \<open>What a handler registered with \<open>ipcMain.handle\<close> gives back to the caller.\<close>

datatype ipc_reply = Replied json | Threw js_error

definition failure :: "js_error \<Rightarrow> json" where
  "failure error = JObj [(''success'', JBool False), (''error'', JStr (error_message error))]"

text \<open>\<open>await\<close> on a promise: nothing while it is pending, then its value or its exception.\<close>

definition await :: "'a promise \<Rightarrow> (js_error + 'a) option" where
  "await p = (case p of Pending \<Rightarrow> None | Fulfilled v \<Rightarrow> Some (Inr v) | Rejected e \<Rightarrow> Some (Inl e))"

text \<open>
  The handler of \<open>send-message\<close>, lines 408 to 418, given the promise of
  \<open>sendToPython\<close>: \<open>return await ...\<close> inside \<open>try\<close>, and the \<open>catch\<close> that answers the
  failure object.
\<close>

definition send_message_handler :: "json promise \<Rightarrow> ipc_reply option" where
  "send_message_handler p =
     (case await p of
        None \<Rightarrow> None
      | Some (Inr response) \<Rightarrow> Some (Replied response)
      | Some (Inl error) \<Rightarrow> Some (Replied (failure error)))"

text \<open>
  The argument of \<open>send-backend-request\<close> as the handler reads it: \<open>None\<close> is a field that
  is \<open>undefined\<close>.
\<close>

record backend_request =
  url :: "string option"
  req_method :: "string option"
  req_data :: "json option"

text \<open>
  What \<open>fetch\<close> does: it rejects (no connection, abort by the timeout), or it answers with
  a status, a status text and a body that \<open>response.json()\<close> parses or fails on.
\<close>

datatype fetch_outcome =
    FetchRejected js_error
  | HttpResponse nat string "js_error + json"

text \<open>\<open>response.ok\<close>.\<close>

definition ok :: "nat \<Rightarrow> bool" where
  "ok status = (200 \<le> status \<and> status \<le> 299)"

text \<open>Whether a value counts as true in a condition.\<close>

fun truthy :: "json \<Rightarrow> bool" where
  "truthy JNull = False"
| "truthy (JBool b) = b"
| "truthy (JNum n) = (n \<noteq> 0)"
| "truthy (JStr str) = (str \<noteq> [])"
| "truthy v = True"

text \<open>
  The \<open>try\<close> block of the handler of \<open>send-backend-request\<close>, lines 431 to 481.
  \<open>request = None\<close> is an argument that is \<open>null\<close> or \<open>undefined\<close>. \<open>Inl\<close> is an
  exception thrown inside the block.
\<close>

definition send_backend_request_body ::
  "bool \<Rightarrow> backend_request option \<Rightarrow> fetch_outcome \<Rightarrow> main_process
     \<Rightarrow> (js_error + json) \<times> main_process" where
  "send_backend_request_body fetch_available request outcome s =
     (if \<not> fetch_available
      then (Inl (Error ''No fetch implementation available. Please install node-fetch or use Node.js 18+''), s)
      else case request of
        None \<Rightarrow> (Inl (TypeError ''Cannot read properties of undefined''), s)
      | Some r \<Rightarrow>
          (case url r of
             None \<Rightarrow> (Inl (TypeError ''Cannot read properties of undefined''), s)
           | Some u \<Rightarrow>
               (let isDownloadRequest = str_includes u ''/model/download'';
                    timeout = (if isDownloadRequest then 120000 else 30000);
                    s' = s\<lparr>http_out := http_out s @
                           [\<lparr>port = currentPort s, path = u,
                             http_method = (case req_method r of
                                              Some m \<Rightarrow> if m = [] then ''GET'' else m
                                            | None \<Rightarrow> ''GET''),
                             body = (case req_data r of
                                       Some d \<Rightarrow> if truthy d then Some d else None
                                     | None \<Rightarrow> None),
                             timeoutMs = Some timeout\<rparr>]\<rparr>
                in case outcome of
                     FetchRejected e \<Rightarrow> (Inl e, s')
                   | HttpResponse status statusText parsed \<Rightarrow>
                       if \<not> ok status
                       then (Inl (Error (''HTTP '' @ decimal status @ '': '' @ statusText)), s')
                       else (parsed, s'))))"

text \<open>The handler: the block above inside its \<open>catch\<close>, lines 482 to 488.\<close>

definition send_backend_request ::
  "bool \<Rightarrow> backend_request option \<Rightarrow> fetch_outcome \<Rightarrow> main_process
     \<Rightarrow> ipc_reply \<times> main_process" where
  "send_backend_request fetch_available request outcome s =
     (case send_backend_request_body fetch_available request outcome s of
        (Inl error, s') \<Rightarrow> (Replied (failure error), s')
      | (Inr data, s') \<Rightarrow> (Replied data, s'))"

text \<open>
  The handler of \<open>save-settings\<close>, lines 527 to 533: every key goes to the store. The
  object \<open>settings\<close> that it also updates is read by \<open>get-settings\<close> only and is not
  modelled.
\<close>

definition save_settings :: "(string \<times> json) list \<Rightarrow> main_process \<Rightarrow> main_process" where
  "save_settings newSettings s =
     s\<lparr>store := foldl (\<lambda>st (key, v). st(key \<mapsto> v)) (store s) newSettings\<rparr>"

subsection \<open>Sessions, frames and scenarios used in the statements\<close>

text \<open>
  The test of \<open>sendToPython\<close> and of the \<open>get-backend-status\<close> handler:
  \<open>ws && ws.readyState === WebSocket.OPEN\<close>.
\<close>

definition session_open :: "main_process \<Rightarrow> bool" where
  "session_open s =
     (case ws s of None \<Rightarrow> False | Some w \<Rightarrow> w < length (socks s) \<and> readyState (socks s ! w) = OPEN)"

text \<open>
  Three kinds of inbound frame, as \<open>responseHandler\<close> tells them apart: the frame whose
  \<open>type\<close> is \<open>chat_response\<close>; the frame on which the \<open>try\<close> block throws (the data is
  not JSON, or it is the JSON value \<open>null\<close>); every other frame, which the handler ignores.
\<close>

definition is_chat_response :: "frame \<Rightarrow> bool" where
  "is_chat_response d =
     (case d of Inl e \<Rightarrow> False | Inr v \<Rightarrow> get_type v = Inr (Some (JStr ''chat_response'')))"

definition handler_fails :: "frame \<Rightarrow> bool" where
  "handler_fails d =
     (case d of
        Inl e \<Rightarrow> True
      | Inr v \<Rightarrow> (case get_type v of Inl e \<Rightarrow> True | Inr t \<Rightarrow> False))"

definition benign :: "frame \<Rightarrow> bool" where
  "benign d = (\<not> is_chat_response d \<and> \<not> handler_fails d)"

text \<open>Frames arriving one after the other, each on the socket it names.\<close>

fun deliver :: "(nat \<times> frame) list \<Rightarrow> main_process \<Rightarrow> main_process" where
  "deliver [] s = s"
| "deliver ((w, d) # fs) s = deliver fs (socket_message w d s)"

text \<open>
  A session that the code itself opened: the window exists, \<open>connectWebSocket\<close> ran on the
  default port, and the socket reported \<open>open\<close>.
\<close>

definition open_session :: main_process where
  "open_session = socket_open 0 True (connectWebSocket ((initial Map.empty)\<lparr>mainWindow := True\<rparr>))"

text \<open>
  A backend that was spawned and announced its port, with no port file, after the start has
  completed.
\<close>

definition running_backend :: main_process where
  "running_backend =
     snd (start_backend True Spawned [''Auto-selected port: 8123''] NoPortFile (initial Map.empty))"

definition hello :: "nat \<times> main_process" where
  "hello = sendToPython (JStr ''hello'') 1700000000000 ''2023-11-14T22:13:20.000Z'' open_session"

definition status_frame :: frame where
  "status_frame = Inr (JObj [(''type'', JStr ''status''), (''state'', JStr ''thinking'')])"

definition foreign_reply :: "(string \<times> json) list" where
  "foreign_reply =
     [(''type'', JStr ''chat_response''), (''id'', JStr ''42''), (''response'', JStr ''hi'')]"

definition sync_request :: "jsnum \<Rightarrow> json \<Rightarrow> http_request" where
  "sync_request p settings =
     \<lparr>port = p, path = ''/settings/sync-frontend'', http_method = ''POST'',
      body = Some settings, timeoutMs = None\<rparr>"

text \<open>
  The session above, then a new model saved through \<open>save-settings\<close>, the socket closed,
  the reconnect timer fired, and the new socket opened.
\<close>

definition reconnected :: main_process where
  "reconnected =
     socket_open 1 True
       (fire_reconnect 5000
          (socket_close 0
             (save_settings [(''jarvis-ai-model'', JStr ''mistral-7b-openorca.gguf2.Q4_0.gguf'')]
                open_session)))"

definition switch_request :: backend_request where
  "switch_request =
     \<lparr>url = Some ''/model/switch'', req_method = Some ''POST'',
      req_data = Some (JObj [(''model_name'', JStr ''mistral-7b-openorca.gguf2.Q4_0.gguf'')])\<rparr>"

section \<open>The settings window: the script of settings.html\<close>

text \<open>
  The elements that the model-switch code looks up by id. \<open>settings_html\<close> is the page as
  the repository ships it, where all of them exist.
\<close>

record page_dom =
  modelStatus :: bool
  modelStatusText :: bool
  downloadProgress :: bool
  progressFill :: bool
  progressText :: bool

definition settings_html :: page_dom where
  "settings_html =
     \<lparr>modelStatus = True, modelStatusText = True, downloadProgress = True,
      progressFill = True, progressText = True\<rparr>"

text \<open>
  The form controls read by \<open>saveSettingsInternal\<close>; \<open>None\<close> is a control that is not in
  the page.
\<close>

record form =
  themeSelect :: "string option"
  voiceEnabledCheck :: "bool option"
  autoStartCheck :: "bool option"
  pythonPortInput :: "string option"
  modelSelect :: "string option"

text \<open>
  What a backend call gives back through \<open>sendBackendRequest\<close>, which never throws: the
  fields that the script reads. \<open>success\<close> and \<open>available\<close> are the truth values of the
  fields of that name; \<open>None\<close> is a field that is missing.
\<close>

record response =
  success :: bool
  available :: bool
  progress :: "rat option"
  download_status :: "string option"
  error_text :: "string option"
  current_model :: "string option"

datatype backend_call =
    ModelCurrent
  | ModelCheck string
  | ModelSwitch string
  | ModelDownload string
  | ModelProgress

text \<open>
  An interval made by \<open>setInterval\<close> in \<open>downloadAndSwitchModel\<close>. Every call of that
  function makes its own: the callback keeps the \<open>modelName\<close> of the call, and
  \<open>clearInterval(pollInterval)\<close> in it stops that interval and no other.
\<close>

record poll_interval =
  interval_model :: string
  active :: bool

text \<open>
  The state of the settings window that the workflow touches: local storage, the requests
  sent to the backend, the models sent to the main process with \<open>save-settings\<close>, the text
  and class of the status line, the intervals made so far (addressed by index), and the
  exceptions that left a polling callback. The loading overlay, the progress bar and the
  timers that hide the status line are not modelled.
\<close>

record settings_page =
  localStorage :: "string \<Rightarrow> string option"
  backend_calls :: "backend_call list"
  ipc_saves :: "string list"
  statusText :: string
  statusClass :: string
  intervals :: "poll_interval list"
  unhandled :: "js_error list"

definition default_model :: string where
  "default_model = ''orca-mini-3b-gguf2-q4_0.gguf''"

text \<open>\<open>x || d\<close> on a string that may be missing or empty.\<close>

definition or_default :: "string option \<Rightarrow> string \<Rightarrow> string" where
  "or_default x d = (case x of Some v \<Rightarrow> if v = [] then d else v | None \<Rightarrow> d)"

text \<open>\<open>r && r.success\<close> and \<open>r?.error\<close>.\<close>

definition succeeded :: "response option \<Rightarrow> bool" where
  "succeeded r = (case r of Some x \<Rightarrow> success x | None \<Rightarrow> False)"

definition error_of :: "response option \<Rightarrow> string option" where
  "error_of r = (case r of Some x \<Rightarrow> error_text x | None \<Rightarrow> None)"

definition sendBackendRequest :: "backend_call \<Rightarrow> settings_page \<Rightarrow> settings_page" where
  "sendBackendRequest c p = p\<lparr>backend_calls := backend_calls p @ [c]\<rparr>"

text \<open>\<open>showSuccessMessage\<close>, \<open>showInfoMessage\<close> and \<open>showErrorMessage\<close>, lines 440 to 479.\<close>

definition show_message :: "page_dom \<Rightarrow> string \<Rightarrow> string \<Rightarrow> settings_page \<Rightarrow> settings_page" where
  "show_message els cls txt p =
     (if modelStatus els \<and> modelStatusText els then p\<lparr>statusText := txt, statusClass := cls\<rparr> else p)"

definition showSuccessMessage :: "page_dom \<Rightarrow> string \<Rightarrow> settings_page \<Rightarrow> settings_page" where
  "showSuccessMessage els txt p = show_message els ''status-text success'' txt p"

definition showInfoMessage :: "page_dom \<Rightarrow> string \<Rightarrow> settings_page \<Rightarrow> settings_page" where
  "showInfoMessage els txt p = show_message els ''status-text info'' txt p"

definition showErrorMessage :: "page_dom \<Rightarrow> string \<Rightarrow> settings_page \<Rightarrow> settings_page" where
  "showErrorMessage els txt p = show_message els ''status-text error'' txt p"

text \<open>
  The two statements that follow every successful switch, lines 235 to 241 and 389 to 395:
  \<open>localStorage.setItem\<close> and the \<open>save-settings\<close> call, whose failure is caught.
\<close>

definition persist_model :: "string \<Rightarrow> settings_page \<Rightarrow> settings_page" where
  "persist_model m p =
     p\<lparr>localStorage := (localStorage p)(''jarvis-ai-model'' \<mapsto> m), ipc_saves := ipc_saves p @ [m]\<rparr>"

text \<open>What the backend answers during one run of the polling callback.\<close>

record tick =
  progress_reply :: "response option"
  tick_switch_reply :: "response option"

definition progress_of :: "response \<Rightarrow> rat" where
  "progress_of r = (case progress r of Some x \<Rightarrow> x | None \<Rightarrow> 0)"

definition status_of :: "response \<Rightarrow> string" where
  "status_of r = or_default (download_status r) ''downloading''"

text \<open>\<open>clearInterval(pollInterval)\<close> in the callback of interval \<open>i\<close>.\<close>

definition clearInterval :: "nat \<Rightarrow> settings_page \<Rightarrow> settings_page" where
  "clearInterval i p = p\<lparr>intervals := (intervals p)[i := (intervals p ! i)\<lparr>active := False\<rparr>]\<rparr>"

text \<open>The \<open>catch\<close> of the polling callback, lines 260 to 263: stop the interval, throw again.\<close>

definition fail_tick :: "nat \<Rightarrow> js_error \<Rightarrow> settings_page \<Rightarrow> settings_page" where
  "fail_tick i e p = (clearInterval i p)\<lparr>unhandled := unhandled p @ [e]\<rparr>"

text \<open>
  The callback of \<open>setInterval\<close>, lines 207 to 264, for interval \<open>i\<close>; \<open>modelName\<close> is
  the name that the callback of this interval keeps.
\<close>

definition poll_tick :: "page_dom \<Rightarrow> nat \<Rightarrow> tick \<Rightarrow> settings_page \<Rightarrow> settings_page" where
  "poll_tick els i tk p =
     (let modelName = interval_model (intervals p ! i);
          p1 = sendBackendRequest ModelProgress p
      in case progress_reply tk of
        None \<Rightarrow> p1
      | Some r \<Rightarrow>
          if \<not> success r then p1
          else if \<not> (progressFill els \<and> progressText els)
          then fail_tick i (TypeError ''Cannot read properties of null'') p1
          else if status_of r = ''completed'' \<or> 100 \<le> progress_of r
          then (let p2 = sendBackendRequest (ModelSwitch modelName)
                           ((clearInterval i p1)\<lparr>statusText := ''Loading new model...''\<rparr>)
                in if succeeded (tick_switch_reply tk)
                   then persist_model modelName
                          (p2\<lparr>statusText := ''Model loaded successfully!'',
                              statusClass := ''status-text success''\<rparr>)
                   else fail_tick i
                          (Error (''Failed to switch model: '' @
                                  or_default (error_of (tick_switch_reply tk)) ''Unknown error''))
                          p2)
          else if status_of r = ''failed''
          then fail_tick i (Error (or_default (error_text r) ''Download failed'')) p1
          else p1)"

text \<open>
  The timers of the page: each entry names the interval that fires and gives what the
  backend answers during that run of its callback. An interval that does not exist or has
  been cleared does not fire. Each run is taken to end before the next one starts.
\<close>

fun run_polling :: "page_dom \<Rightarrow> (nat \<times> tick) list \<Rightarrow> settings_page \<Rightarrow> settings_page" where
  "run_polling els [] p = p"
| "run_polling els ((i, tk) # evs) p =
     run_polling els evs
       (if i < length (intervals p) \<and> active (intervals p ! i) then poll_tick els i tk p else p)"

text \<open>\<open>downloadAndSwitchModel\<close>, lines 179 to 275, up to its \<open>return\<close>.\<close>

definition downloadAndSwitchModel ::
  "page_dom \<Rightarrow> string \<Rightarrow> response option \<Rightarrow> settings_page \<Rightarrow> bool \<times> settings_page" where
  "downloadAndSwitchModel els modelName downloadResponse p =
     (if \<not> (modelStatus els \<and> modelStatusText els \<and> downloadProgress els) then (False, p)
      else
        (let p1 = sendBackendRequest (ModelDownload modelName)
                    (p\<lparr>statusText := ''Starting model download...'', statusClass := ''status-text info''\<rparr>)
         in if \<not> succeeded downloadResponse
            then (False,
                  p1\<lparr>statusText := ''Error downloading model: '' @
                                     or_default (error_of downloadResponse) ''Failed to start download'',
                     statusClass := ''status-text error''\<rparr>)
            else (True,
                  p1\<lparr>statusText := ''Downloading model... This may take several minutes.'',
                     intervals := intervals p1 @ [\<lparr>interval_model = modelName, active = True\<rparr>]\<rparr>)))"

text \<open>What the backend answers to the calls of \<open>saveSettingsInternal\<close>.\<close>

record backend =
  current_reply :: "response option"
  check_reply :: "response option"
  switch_reply :: "response option"
  download_reply :: "response option"

definition selectedModel :: "form \<Rightarrow> string" where
  "selectedModel f = or_default (modelSelect f) default_model"

text \<open>The value of \<open>modelChanged\<close>, lines 326 to 341.\<close>

definition modelChanged :: "form \<Rightarrow> backend \<Rightarrow> settings_page \<Rightarrow> bool" where
  "modelChanged f env p =
     (let backendCurrentModel = (case current_reply env of Some r \<Rightarrow> current_model r | None \<Rightarrow> None);
          previousModel = or_default (localStorage p ''jarvis-ai-model'') default_model
      in previousModel \<noteq> selectedModel f
         \<or> (case backendCurrentModel of
               Some m \<Rightarrow> m \<noteq> [] \<and> m \<noteq> selectedModel f
             | None \<Rightarrow> False))"

text \<open>The object \<open>frontendSettings\<close> written to local storage, lines 345 to 361.\<close>

definition bool_string :: "bool \<Rightarrow> string" where
  "bool_string b = (if b then ''true'' else ''false'')"

definition save_frontend_settings :: "form \<Rightarrow> settings_page \<Rightarrow> settings_page" where
  "save_frontend_settings f p =
     (let ls = (localStorage p)
           (''jarvis-theme'' \<mapsto> or_default (themeSelect f) ''light'',
            ''jarvis-voice-enabled'' \<mapsto> bool_string (voiceEnabledCheck f \<noteq> Some False),
            ''jarvis-auto-start'' \<mapsto> bool_string (autoStartCheck f = Some True),
            ''jarvis-backend-port'' \<mapsto> or_default (pythonPortInput f) ''8000'',
            ''jarvis-ai-model'' \<mapsto> selectedModel f)
      in p\<lparr>localStorage := (case themeSelect f of Some v \<Rightarrow> ls(''jarvis-theme'' \<mapsto> v) | None \<Rightarrow> ls)\<rparr>)"

text \<open>
  The block under \<open>if (modelChanged)\<close>, lines 364 to 417, with its \<open>catch\<close>: every
  failure ends in \<open>showErrorMessage\<close>.
\<close>

definition handle_model_change :: "page_dom \<Rightarrow> string \<Rightarrow> backend \<Rightarrow> settings_page \<Rightarrow> settings_page" where
  "handle_model_change els m env p =
     (let p1 = sendBackendRequest (ModelCheck m) p in
      case check_reply env of
        None \<Rightarrow>
          showErrorMessage els
            ''Model switching failed: Unable to check model availability. Other settings have been applied.'' p1
      | Some checkResponse \<Rightarrow>
          if \<not> success checkResponse
          then showErrorMessage els
                 ''Model switching failed: Unable to check model availability. Other settings have been applied.'' p1
          else if available checkResponse
          then (let p2 = sendBackendRequest (ModelSwitch m) p1 in
                if succeeded (switch_reply env)
                then showSuccessMessage els (''Successfully switched to '' @ m @ ''!'') (persist_model m p2)
                else showErrorMessage els
                       (''Model switching failed: Failed to switch model: '' @
                        or_default (error_of (switch_reply env)) ''Unknown error'' @
                        ''. Other settings have been applied.'') p2)
          else (case downloadAndSwitchModel els m (download_reply env)
                       (showInfoMessage els (''Downloading '' @ m @ ''...'') p1) of
                  (True, p2) \<Rightarrow>
                    showSuccessMessage els (''Successfully downloaded and switched to '' @ m @ ''!'') p2
                | (False, p2) \<Rightarrow> p2))"

text \<open>\<open>saveSettingsInternal\<close>, lines 308 to 431. Nothing in its body throws.\<close>

definition saveSettingsInternal ::
  "page_dom \<Rightarrow> form \<Rightarrow> backend \<Rightarrow> settings_page \<Rightarrow> bool \<times> settings_page" where
  "saveSettingsInternal els f env p =
     (let p1 = sendBackendRequest ModelCurrent p;
          changed = modelChanged f env p1;
          p2 = save_frontend_settings f p1
      in if changed then (True, handle_model_change els (selectedModel f) env p2)
         else (True, showSuccessMessage els ''Settings applied successfully!'' p2))"

text \<open>
  A press of Apply and what follows it: \<open>saveSettingsInternal\<close>, taken to end before
  another callback of the page runs, then the runs of the polling callbacks of the
  intervals of the page, in the order given.
\<close>

definition model_switch ::
  "page_dom \<Rightarrow> form \<Rightarrow> backend \<Rightarrow> (nat \<times> tick) list \<Rightarrow> settings_page \<Rightarrow> settings_page" where
  "model_switch els f env evs p = run_polling els evs (snd (saveSettingsInternal els f env p))"

text \<open>
  What a progress answer says, read from its fields: the download is complete when the
  field \<open>status\<close> is the string \<open>completed\<close> or the field \<open>progress\<close> is a number of at
  least 100; it has failed when \<open>status\<close> is the string \<open>failed\<close>.
\<close>

definition reports_complete :: "response \<Rightarrow> bool" where
  "reports_complete r =
     (download_status r = Some ''completed''
      \<or> (case progress r of Some x \<Rightarrow> 100 \<le> x | None \<Rightarrow> False))"

definition reports_failed :: "response \<Rightarrow> bool" where
  "reports_failed r = (download_status r = Some ''failed'')"

text \<open>
  A run of the polling callback whose progress answer is missing, unsuccessful, or reports
  neither completion nor failure; and a run whose progress answer is successful and reports
  completion.
\<close>

definition continues :: "tick \<Rightarrow> bool" where
  "continues tk =
     (case progress_reply tk of
        None \<Rightarrow> True
      | Some r \<Rightarrow> (if success r then \<not> reports_complete r \<and> \<not> reports_failed r else True))"

definition download_complete :: "tick \<Rightarrow> bool" where
  "download_complete tk =
     (case progress_reply tk of
        None \<Rightarrow> False
      | Some r \<Rightarrow> success r \<and> reports_complete r)"

text \<open>
  Pages, forms and backends for the examples. The model names are options of the
  \<open>modelSelect\<close> control of settings.html. \<open>downloading_phi\<close> is the page after a press
  of Apply that started the download of a first model, which is still being polled.
\<close>

definition fresh_page :: settings_page where
  "fresh_page =
     \<lparr>localStorage = Map.empty, backend_calls = [], ipc_saves = [], statusText = [],
      statusClass = ''status-text'', intervals = [], unhandled = []\<rparr>"

definition openorca :: string where
  "openorca = ''mistral-7b-openorca.gguf2.Q4_0.gguf''"

definition phi :: string where
  "phi = ''phi-2.Q4_0.gguf''"

definition form_with :: "string \<Rightarrow> form" where
  "form_with m =
     \<lparr>themeSelect = Some ''dark'', voiceEnabledCheck = Some True, autoStartCheck = Some False,
      pythonPortInput = Some ''8000'', modelSelect = Some m\<rparr>"

definition backend_reply :: "bool \<Rightarrow> bool \<Rightarrow> rat option \<Rightarrow> string option \<Rightarrow> response" where
  "backend_reply s a pr st =
     \<lparr>success = s, available = a, progress = pr, download_status = st, error_text = None,
      current_model = None\<rparr>"

definition backend_with :: "bool \<Rightarrow> backend" where
  "backend_with a =
     \<lparr>current_reply = Some ((backend_reply True False None None)\<lparr>current_model := Some default_model\<rparr>),
      check_reply = Some (backend_reply True a None None),
      switch_reply = Some (backend_reply True False None None),
      download_reply = Some (backend_reply True False None None)\<rparr>"

definition progress_tick :: "rat \<Rightarrow> string \<Rightarrow> tick" where
  "progress_tick x st =
     \<lparr>progress_reply = Some (backend_reply True False (Some x) (Some st)),
      tick_switch_reply = Some (backend_reply True False None None)\<rparr>"

definition downloading_phi :: settings_page where
  "downloading_phi = snd (saveSettingsInternal settings_html (form_with phi) (backend_with False) fresh_page)"

section \<open>Properties\<close>

subsection \<open>Port discovery\<close>

lemma read_port_file_port:
  "currentPort (read_port_file (PortFile d) s) = parseInt (trim d)"
  by (simp add: read_port_file_def)

lemma startPythonBackend_spawned:
  "startPythonBackend True Spawned s =
     (Pending, setTimeout 5000 StartupGrace
        (s\<lparr>pythonProcess := Some (length (procs s)),
           procs := procs s @ [\<lparr>killed = False, exited = False\<rparr>]\<rparr>))"
  by (simp add: startPythonBackend_def startPythonBackend_body_def)

text \<open>
  C1. When the five-second timer fires and the port file is read, the port in memory is the
  file's parsed value, in whatever state the read finds the process; in particular after a
  spawn followed by any chunks of standard output, whatever port they announced.
\<close>

theorem port_file_overrides_stdout:
  "currentPort (snd (startPythonBackend_resume (PortFile d) s)) = parseInt (trim d)
   \<and> currentPort (snd (start_backend True Spawned chunks (PortFile d) s)) = parseInt (trim d)"
  by (simp add: start_backend_def startPythonBackend_spawned startPythonBackend_resume_def
      read_port_file_port)

text \<open>
  The listener of standard output stays attached after the read: an announcement that
  arrives later replaces the file's value in turn.
\<close>

lemma stdout_after_port_file:
  "portMatch out = Some digits \<Longrightarrow>
   currentPort (on_stdout_data out (snd (start_backend True Spawned chunks (PortFile d) s)))
     = parseInt digits"
  by (simp add: on_stdout_data_def)

lemma stdout_then_port_file_example:
  "currentPort (foldl (\<lambda>t out. on_stdout_data out t)
       (snd (startPythonBackend True Spawned (initial Map.empty)))
       [''Auto-selected port: 8123'']) = Num 8123
   \<and> currentPort (snd (start_backend True Spawned [''Auto-selected port: 8123'']
       (PortFile [CHR ''9'', CHR ''0'', CHR ''0'', CHR ''1'', CHR 0x0A]) (initial Map.empty))) = Num 9001"
  by (simp add: start_backend_def startPythonBackend_spawned startPythonBackend_resume_def
      read_port_file_def on_stdout_data_def port_announcement_def is_decimal_digit_def
      parseInt_def trim_def is_white_space_def is_radix_digit_def digit_value_def
      radix_value_def initial_def setTimeout_def)

text \<open>Contents on which \<open>parseInt\<close> answers \<open>NaN\<close>: nothing, or a first character that is
  neither white space, nor a sign, nor a decimal digit.\<close>

lemma parseInt_empty: "parseInt [] = NaN"
  by (simp add: parseInt_def)

lemma zero_is_digit: "is_radix_digit 10 CHR ''0''"
  by (simp add: is_radix_digit_def digit_value_def)

lemma parseInt_no_leading_digit:
  assumes "\<not> is_white_space c" "c \<noteq> CHR ''+''" "c \<noteq> CHR ''-''" "\<not> is_radix_digit 10 c"
  shows "parseInt (c # cs) = NaN"
proof -
  from assms(4) zero_is_digit have "c \<noteq> CHR ''0''" by auto
  with assms show ?thesis by (simp add: parseInt_def Let_def)
qed

text \<open>
  C10. When the port file is there and is read, and its trimmed content has no integer for
  \<open>parseInt\<close> to read, the port in memory becomes \<open>NaN\<close>: the value found before on
  standard output, or the default, is lost.
\<close>

theorem unparsable_port_file_sets_NaN:
  "parseInt (trim d) = NaN \<Longrightarrow>
   currentPort (snd (startPythonBackend_resume (PortFile d) s)) = NaN
   \<and> currentPort (snd (start_backend True Spawned chunks (PortFile d) s)) = NaN"
  by (simp add: start_backend_def startPythonBackend_spawned startPythonBackend_resume_def
      read_port_file_port)

theorem unparsable_port_file_sets_NaN_witness:
  "parseInt (trim ''abc'') = NaN
   \<and> currentPort (foldl (\<lambda>t out. on_stdout_data out t)
       (snd (startPythonBackend True Spawned (initial Map.empty)))
       [''Auto-selected port: 8123'']) = Num 8123
   \<and> currentPort (snd (start_backend True Spawned [''Auto-selected port: 8123'']
       (PortFile ''abc'') (initial Map.empty))) = NaN"
proof -
  have unparsable: "parseInt (trim ''abc'') = NaN"
    by (simp add: parseInt_def trim_def is_white_space_def is_radix_digit_def digit_value_def)
  have announced: "currentPort (foldl (\<lambda>t out. on_stdout_data out t)
       (snd (startPythonBackend True Spawned (initial Map.empty)))
       [''Auto-selected port: 8123'']) = Num 8123"
    by (simp add: startPythonBackend_spawned on_stdout_data_def port_announcement_def
        is_decimal_digit_def parseInt_def is_white_space_def is_radix_digit_def
        digit_value_def radix_value_def initial_def setTimeout_def)
  from unparsable announced
    unparsable_port_file_sets_NaN [OF unparsable,
      where chunks = "[''Auto-selected port: 8123'']" and s = "initial Map.empty"]
  show ?thesis by simp
qed

subsection \<open>Start with the entry point missing\<close>

text \<open>
  C3. When the backend script is not on disk, the promise of \<open>startPythonBackend\<close> is
  fulfilled with \<open>false\<close>, not rejected, and the state is the one before the call: no
  process object exists that did not exist before, \<open>pythonProcess\<close> is unchanged, and no
  timer was armed. The same holds for the whole start, whatever the environment would have
  answered to the spawn and to the read of the port file.
\<close>

theorem start_without_script:
  "startPythonBackend False sp s = (Fulfilled False, s)
   \<and> start_backend False sp chunks pf s = (Fulfilled False, s)
   \<and> pythonProcess (snd (start_backend False sp chunks pf (initial st))) = None
   \<and> procs (snd (start_backend False sp chunks pf (initial st))) = []"
  by (simp add: start_backend_def startPythonBackend_def startPythonBackend_body_def initial_def)

subsection \<open>Shutdown\<close>

lemma kill_pythonProcess [simp]: "pythonProcess (kill p sig s) = pythonProcess s"
  by (simp add: kill_def)

lemma cleanup_clears_pythonProcess: "pythonProcess (cleanup s) = None"
  by (simp add: cleanup_def Let_def setTimeout_def split: option.splits)

text \<open>
  After \<open>cleanup\<close> the variable \<open>pythonProcess\<close> is \<open>null\<close>, so the callback of the
  five-second timer finds no process to test and sends nothing.
\<close>

lemma force_kill_after_cleanup_sends_nothing:
  "signals (fire_force_kill (cleanup s)) = signals (cleanup s)"
  by (simp add: fire_force_kill_def force_kill_def cleanup_clears_pythonProcess)

lemma running_backend_eval:
  "running_backend =
     \<lparr> pythonProcess = Some 0, ws = None, isQuitting = False, currentPort = Num 8123,
       mainWindow = False, store = Map.empty, procs = [\<lparr>killed = False, exited = False\<rparr>],
       socks = [], timers = [], requests = [], signals = [], frames_out = [],
       notifications = [], http_out = [], uncaught = [] \<rparr>"
  by (simp add: running_backend_def start_backend_def startPythonBackend_spawned
      startPythonBackend_resume_def read_port_file_def on_stdout_data_def
      port_announcement_def is_decimal_digit_def parseInt_def is_white_space_def
      is_radix_digit_def digit_value_def radix_value_def setTimeout_def initial_def)

text \<open>
  C2. The code at a backend that was spawned, is still running and does not end on
  \<open>SIGTERM\<close>: \<open>cleanup\<close> sends \<open>SIGTERM\<close> and arms the five-second timer; when the timer
  fires the process is still there, and the only signal ever sent is \<open>SIGTERM\<close>. No
  \<open>SIGKILL\<close> follows.
\<close>

theorem cleanup_sends_no_SIGKILL:
  "pythonProcess running_backend = Some 0
   \<and> \<not> exited (procs running_backend ! 0)
   \<and> signals (cleanup running_backend) = [(0, SIGTERM)]
   \<and> timers (cleanup running_backend) = [(5000, ForceKill)]
   \<and> \<not> exited (procs (fire_force_kill (cleanup running_backend)) ! 0)
   \<and> signals (fire_force_kill (cleanup running_backend)) = [(0, SIGTERM)]"
  by (simp add: running_backend_eval cleanup_def fire_force_kill_def force_kill_def kill_def
      setTimeout_def)

text \<open>
  The test \<open>!pythonProcess.killed\<close> would stop the callback as well: once \<open>SIGTERM\<close> has
  been delivered \<open>killed\<close> is true, and a process that was already gone takes no signal.
\<close>

lemma force_kill_after_SIGTERM:
  "pythonProcess s = Some p \<Longrightarrow> signals (force_kill (kill p SIGTERM s)) = signals (kill p SIGTERM s)"
  by (simp add: force_kill_def kill_def)

subsection \<open>Chat requests\<close>

lemma sendToPython_not_connected:
  "\<not> session_open s \<Longrightarrow>
   sendToPython msg now stamp s =
     (length (requests s), s\<lparr>requests := requests s @ [Rejected (Error ''WebSocket not connected'')]\<rparr>)"
  by (auto simp: sendToPython_def session_open_def Let_def split: option.splits)

text \<open>
  C4. \<open>sendToPython\<close> called while no session is open (\<open>ws\<close> is \<open>null\<close>, or the
  socket is not in state \<open>OPEN\<close>): the promise it returns is already rejected with
  "WebSocket not connected", so awaiting it yields that error at once; no frame was sent, no
  timer was armed and no listener was attached.
\<close>

theorem send_without_session:
  assumes "\<not> session_open s"
  shows "requests (snd (sendToPython msg now stamp s)) ! fst (sendToPython msg now stamp s)
           = Rejected (Error ''WebSocket not connected'')
         \<and> await (requests (snd (sendToPython msg now stamp s)) ! fst (sendToPython msg now stamp s))
           = Some (Inl (Error ''WebSocket not connected''))
         \<and> frames_out (snd (sendToPython msg now stamp s)) = frames_out s
         \<and> timers (snd (sendToPython msg now stamp s)) = timers s
         \<and> socks (snd (sendToPython msg now stamp s)) = socks s"
  using assms by (simp add: sendToPython_not_connected await_def)

lemma sendToPython_connected:
  assumes "session_open s" "ws s = Some w"
  shows "sendToPython msg now stamp s =
     (length (requests s),
      s\<lparr>requests := requests s @ [Pending],
        timers := timers s @ [(30000, RequestTimeout (length (requests s)))],
        socks := (socks s)[w := (socks s ! w)\<lparr>listeners := listeners (socks s ! w) @ [length (requests s)]\<rparr>],
        frames_out := frames_out s @ [(w, fullMessage msg now stamp)]\<rparr>)"
  using assms by (simp add: sendToPython_def session_open_def Let_def setTimeout_def)

lemma responseHandler_benign: "benign d \<Longrightarrow> responseHandler k d s = (None, s)"
  by (auto simp: benign_def is_chat_response_def handler_fails_def responseHandler_def
      split: sum.splits)

lemma run_handlers_benign: "benign d \<Longrightarrow> run_handlers ks d s = s"
  by (induction ks) (simp_all add: responseHandler_benign)

lemma socket_message_benign:
  "benign d \<Longrightarrow> socket_message w d s = (if w < length (socks s) then on_message d s else s)"
  by (simp add: socket_message_def run_handlers_benign)

lemma on_message_fields [simp]:
  "requests (on_message d s) = requests s" "timers (on_message d s) = timers s"
  "socks (on_message d s) = socks s" "ws (on_message d s) = ws s"
  by (simp_all add: on_message_def send_to_window_def split: sum.splits)

lemma deliver_benign:
  "\<forall>f\<in>set fs. benign (snd f) \<Longrightarrow>
   requests (deliver fs s) = requests s \<and> timers (deliver fs s) = timers s
   \<and> socks (deliver fs s) = socks s \<and> ws (deliver fs s) = ws s"
proof (induction fs arbitrary: s)
  case Nil
  then show ?case by simp
next
  case (Cons f fs)
  obtain w d where f: "f = (w, d)" by (cases f)
  with Cons.prems have "benign d" by simp
  with Cons f show ?case by (simp add: socket_message_benign)
qed

lemma settle_keeps:
  "k < length (requests s) \<Longrightarrow> requests s ! k \<noteq> Pending \<Longrightarrow>
   length (requests (settle j outcome s)) = length (requests s)
   \<and> requests (settle j outcome s) ! k = requests s ! k"
  by (auto simp: settle_def nth_list_update)

lemma responseHandler_keeps:
  assumes "k < length (requests s)" "requests s ! k \<noteq> Pending"
  shows "length (requests (snd (responseHandler j d s))) = length (requests s)
         \<and> requests (snd (responseHandler j d s)) ! k = requests s ! k"
  using assms
  by (auto simp: responseHandler_def ws_off_def clearTimeout_def Let_def settle_def nth_list_update
      split: sum.splits option.splits)

lemma run_handlers_keeps:
  "k < length (requests s) \<Longrightarrow> requests s ! k \<noteq> Pending \<Longrightarrow>
   length (requests (run_handlers ks d s)) = length (requests s)
   \<and> requests (run_handlers ks d s) ! k = requests s ! k"
proof (induction ks arbitrary: s)
  case Nil
  then show ?case by simp
next
  case (Cons j ks)
  obtain e s' where h: "responseHandler j d s = (e, s')" by (cases "responseHandler j d s")
  from responseHandler_keeps [OF Cons.prems, of j d] h
  have keep: "length (requests s') = length (requests s)" "requests s' ! k = requests s ! k"
    by simp_all
  show ?case
  proof (cases e)
    case None
    with h keep Cons.prems Cons.IH [of s'] show ?thesis by simp
  next
    case (Some err)
    with h keep show ?thesis by simp
  qed
qed

lemma socket_message_keeps:
  "k < length (requests s) \<Longrightarrow> requests s ! k \<noteq> Pending \<Longrightarrow>
   length (requests (socket_message w d s)) = length (requests s)
   \<and> requests (socket_message w d s) ! k = requests s ! k"
  using run_handlers_keeps [of k "on_message d s" "listeners (socks s ! w)" d]
  by (simp add: socket_message_def)

lemma deliver_keeps:
  "k < length (requests s) \<Longrightarrow> requests s ! k \<noteq> Pending \<Longrightarrow>
   length (requests (deliver fs s)) = length (requests s)
   \<and> requests (deliver fs s) ! k = requests s ! k"
proof (induction fs arbitrary: s)
  case Nil
  then show ?case by simp
next
  case (Cons f fs)
  obtain w d where f: "f = (w, d)" by (cases f)
  from socket_message_keeps [OF Cons.prems, of w d] Cons.prems Cons.IH [of "socket_message w d s"] f
  show ?case by simp
qed

lemma fire_request_timeout_pending:
  assumes "k < length (requests s)" "requests s ! k = Pending" "(30000, RequestTimeout k) \<in> set (timers s)"
  shows "requests (fire_request_timeout k s) ! k = Rejected (Error ''Request timeout'')
         \<and> length (requests (fire_request_timeout k s)) = length (requests s)"
  using assms by (simp add: fire_request_timeout_def request_timeout_def settle_def)

text \<open>
  C5, as amended. A chat send over an open session, followed before the deadline only by
  frames that are neither a \<open>chat_response\<close> nor a frame the handler fails on: the promise
  is pending until the thirty-second timer fires, the timer rejects it with "Request timeout",
  and whatever frames arrive afterwards the promise stays rejected with that error.
\<close>

theorem chat_timeout_settles_once:
  assumes open_s: "session_open s"
    and sent: "sendToPython msg now stamp s = (k, s0)"
    and quiet: "\<forall>f\<in>set before. benign (snd f)"
  shows "requests s0 ! k = Pending
         \<and> requests (deliver before s0) ! k = Pending
         \<and> (30000, RequestTimeout k) \<in> set (timers (deliver before s0))
         \<and> requests (fire_request_timeout k (deliver before s0)) ! k = Rejected (Error ''Request timeout'')
         \<and> requests (deliver later (fire_request_timeout k (deliver before s0))) ! k
             = Rejected (Error ''Request timeout'')"
proof -
  from open_s obtain w where w: "ws s = Some w"
    by (auto simp: session_open_def split: option.splits)
  from sendToPython_connected [OF open_s w, of msg now stamp] sent
  have k: "k = length (requests s)"
    and r0: "requests s0 = requests s @ [Pending]"
    and t0: "timers s0 = timers s @ [(30000, RequestTimeout k)]"
    by auto
  let ?s1 = "deliver before s0"
  from deliver_benign [OF quiet, of s0] r0 t0
  have r1: "requests ?s1 = requests s @ [Pending]" and t1: "(30000, RequestTimeout k) \<in> set (timers ?s1)"
    by simp_all
  from r1 k have p1: "k < length (requests ?s1)" "requests ?s1 ! k = Pending" by simp_all
  let ?s2 = "fire_request_timeout k ?s1"
  from fire_request_timeout_pending [OF p1 t1]
  have r2: "requests ?s2 ! k = Rejected (Error ''Request timeout'')" "k < length (requests ?s2)"
    using p1 by simp_all
  from r2 deliver_keeps [of k ?s2 later]
  have r3: "requests (deliver later ?s2) ! k = Rejected (Error ''Request timeout'')" by simp
  from r0 k p1 t1 r2 r3 show ?thesis by simp
qed


lemma responseHandler_chat_response:
  assumes "ws s = Some w" "get_type reply = Inr (Some (JStr ''chat_response''))"
  shows "fst (responseHandler j (Inr reply) s) = None
         \<and> ws (snd (responseHandler j (Inr reply) s)) = Some w
         \<and> requests (snd (responseHandler j (Inr reply) s))
             = (if j < length (requests s) \<and> requests s ! j = Pending
                then (requests s)[j := Fulfilled reply] else requests s)"
  using assms by (simp add: responseHandler_def ws_off_def clearTimeout_def settle_def Let_def)

lemma run_handlers_chat_response:
  assumes "get_type reply = Inr (Some (JStr ''chat_response''))"
  shows "ws s = Some w \<Longrightarrow> k \<in> set ks \<Longrightarrow> k < length (requests s) \<Longrightarrow> requests s ! k = Pending
         \<Longrightarrow> requests (run_handlers ks (Inr reply) s) ! k = Fulfilled reply"
proof (induction ks arbitrary: s)
  case Nil
  then show ?case by simp
next
  case (Cons j ks)
  obtain e s' where h: "responseHandler j (Inr reply) s = (e, s')"
    by (cases "responseHandler j (Inr reply) s")
  from responseHandler_chat_response [OF Cons.prems(1) assms, of j] h
  have e: "e = None" and w': "ws s' = Some w"
    and r': "requests s' = (if j < length (requests s) \<and> requests s ! j = Pending
                then (requests s)[j := Fulfilled reply] else requests s)"
    by simp_all
  show ?case
  proof (cases "j = k")
    case True
    with r' Cons.prems have "k < length (requests s')" "requests s' ! k = Fulfilled reply"
      by simp_all
    with run_handlers_keeps [of k s' ks "Inr reply"] h e show ?thesis by simp
  next
    case False
    with r' Cons.prems have "k < length (requests s')" "requests s' ! k = Pending" "k \<in> set ks"
      by (simp_all add: nth_list_update)
    with Cons.IH [OF w'] h e show ?thesis by simp
  qed
qed

text \<open>
  C6. A chat send over an open session, then frames the handler ignores, then a frame whose
  \<open>type\<close> is \<open>chat_response\<close>: the promise is fulfilled with that frame. Nothing is asked
  of its other properties; its \<open>id\<close> may be any value or be missing.
\<close>

theorem chat_response_ignores_id:
  assumes open_s: "session_open s"
    and sock: "ws s = Some w"
    and sent: "sendToPython msg now stamp s = (k, s0)"
    and quiet: "\<forall>f\<in>set before. benign (snd f)"
    and reply: "map_of props ''type'' = Some (JStr ''chat_response'')"
  shows "requests (deliver before s0) ! k = Pending
         \<and> requests (socket_message w (Inr (JObj props)) (deliver before s0)) ! k
             = Fulfilled (JObj props)"
proof -
  from open_s sock have wlen: "w < length (socks s)"
    by (simp add: session_open_def)
  from sendToPython_connected [OF open_s sock, of msg now stamp] sent
  have k: "k = length (requests s)"
    and r0: "requests s0 = requests s @ [Pending]"
    and w0: "ws s0 = Some w"
    and l0: "socks s0 = (socks s)[w := (socks s ! w)\<lparr>listeners := listeners (socks s ! w) @ [k]\<rparr>]"
    using sock by auto
  let ?s1 = "deliver before s0"
  from deliver_benign [OF quiet, of s0] r0 w0 l0
  have r1: "requests ?s1 = requests s @ [Pending]" and w1: "ws ?s1 = Some w"
    and l1: "socks ?s1 = (socks s)[w := (socks s ! w)\<lparr>listeners := listeners (socks s ! w) @ [k]\<rparr>]"
    by simp_all
  let ?s1' = "on_message (Inr (JObj props)) ?s1"
  from l1 wlen have mem: "k \<in> set (listeners (socks ?s1 ! w))" and wlen1: "w < length (socks ?s1)"
    by simp_all
  from reply have chat: "get_type (JObj props) = Inr (Some (JStr ''chat_response''))" by simp
  have "requests (run_handlers (listeners (socks ?s1 ! w)) (Inr (JObj props)) ?s1') ! k
          = Fulfilled (JObj props)"
    using w1 r1 k by (intro run_handlers_chat_response [OF chat _ mem, of ?s1' w]) simp_all
  with wlen1 r1 k show ?thesis by (simp add: socket_message_def)
qed

lemma open_session_eval:
  "open_session =
     \<lparr> pythonProcess = None, ws = Some 0, isQuitting = False, currentPort = Num 8000,
       mainWindow = True, store = Map.empty, procs = [],
       socks = [\<lparr>readyState = OPEN, listeners = []\<rparr>], timers = [], requests = [],
       signals = [], frames_out = [],
       notifications = [BackendStatus True (Some True) (Some (Num 8000))],
       http_out = [\<lparr>port = Num 8000, path = ''/settings/sync-frontend'', http_method = ''POST'',
                    body = Some (settingsData (initial Map.empty)), timeoutMs = None\<rparr>],
       uncaught = [] \<rparr>"
  by (simp add: open_session_def socket_open_def on_open_def set_readyState_def
      connectWebSocket_def valid_port_def initial_def send_to_window_def
      syncSettingsWithBackend_def settingsData_def store_get_def)

lemma open_session_is_open: "session_open open_session"
  by (simp add: open_session_eval session_open_def)


lemma hello_eval:
  "hello = (0, open_session\<lparr>requests := [Pending], timers := [(30000, RequestTimeout 0)],
              socks := [\<lparr>readyState = OPEN, listeners = [0]\<rparr>],
              frames_out := [(0, fullMessage (JStr ''hello'') 1700000000000 ''2023-11-14T22:13:20.000Z'')]\<rparr>)"
proof -
  have "ws open_session = Some 0" by (simp add: open_session_eval)
  from sendToPython_connected [OF open_session_is_open this]
  show ?thesis unfolding hello_def by (simp add: open_session_eval)
qed

lemma hello_fst: "fst hello = 0"
  by (simp add: hello_eval)

theorem send_without_session_witness:
  "\<not> session_open (initial Map.empty)
   \<and> requests (snd (sendToPython (JStr ''hello'') 1700000000000 ''2023-11-14T22:13:20.000Z'' (initial Map.empty)))
       ! fst (sendToPython (JStr ''hello'') 1700000000000 ''2023-11-14T22:13:20.000Z'' (initial Map.empty))
       = Rejected (Error ''WebSocket not connected'')
   \<and> frames_out (snd (sendToPython (JStr ''hello'') 1700000000000 ''2023-11-14T22:13:20.000Z'' (initial Map.empty))) = []
   \<and> timers (snd (sendToPython (JStr ''hello'') 1700000000000 ''2023-11-14T22:13:20.000Z'' (initial Map.empty))) = []
   \<and> readyState (socks (connectWebSocket (initial Map.empty)) ! 0) = CONNECTING
   \<and> \<not> session_open (connectWebSocket (initial Map.empty))
   \<and> requests (snd (sendToPython (JStr ''hello'') 1700000000000 ''2023-11-14T22:13:20.000Z''
         (connectWebSocket (initial Map.empty)))) ! 0
       = Rejected (Error ''WebSocket not connected'')
   \<and> frames_out (snd (sendToPython (JStr ''hello'') 1700000000000 ''2023-11-14T22:13:20.000Z''
         (connectWebSocket (initial Map.empty)))) = []"
proof -
  have closed: "\<not> session_open (initial Map.empty)"
    by (simp add: session_open_def initial_def)
  have connecting: "\<not> session_open (connectWebSocket (initial Map.empty))"
    by (simp add: session_open_def connectWebSocket_def valid_port_def initial_def)
  from closed connecting
    send_without_session [OF closed, of "JStr ''hello''" 1700000000000 "''2023-11-14T22:13:20.000Z''"]
    send_without_session [OF connecting, of "JStr ''hello''" 1700000000000 "''2023-11-14T22:13:20.000Z''"]
  show ?thesis
    by (simp add: initial_def connectWebSocket_def valid_port_def sendToPython_not_connected)
qed

theorem chat_timeout_settles_once_witness:
  "session_open open_session
   \<and> benign status_frame
   \<and> fst hello = 0
   \<and> requests (deliver [(0, status_frame)] (snd hello)) ! 0 = Pending
   \<and> requests (fire_request_timeout 0 (deliver [(0, status_frame)] (snd hello))) ! 0
       = Rejected (Error ''Request timeout'')
   \<and> requests (deliver [(0, Inr (JObj foreign_reply)), (0, Inl (SyntaxError ''Unexpected end of JSON input''))]
         (fire_request_timeout 0 (deliver [(0, status_frame)] (snd hello)))) ! 0
       = Rejected (Error ''Request timeout'')"
proof -
  have quiet: "benign status_frame"
    by (simp add: benign_def is_chat_response_def handler_fails_def status_frame_def)
  then have all_quiet: "\<forall>f\<in>set [(0, status_frame)]. benign (snd f)" by simp
  have sent: "sendToPython (JStr ''hello'') 1700000000000 ''2023-11-14T22:13:20.000Z'' open_session
                = (0, snd hello)"
    using hello_eval by (simp add: hello_def)
  from chat_timeout_settles_once [OF open_session_is_open sent all_quiet,
      of "[(0, Inr (JObj foreign_reply)), (0, Inl (SyntaxError ''Unexpected end of JSON input''))]"]
    open_session_is_open quiet hello_fst
  show ?thesis by simp
qed

text \<open>
  The claim C5 as it was stated fails: with no \<open>chat_response\<close> frame at all, a frame that
  is not JSON (or the JSON value \<open>null\<close>) arriving before the deadline rejects the promise
  with the parse error, and the timer, cleared by the handler, never delivers a timeout.
\<close>

theorem chat_timeout_counterexample:
  "session_open open_session
   \<and> \<not> is_chat_response (Inl (SyntaxError ''Unexpected end of JSON input''))
   \<and> requests (fire_request_timeout 0
        (deliver [(0, Inl (SyntaxError ''Unexpected end of JSON input''))] (snd hello))) ! 0
       = Rejected (SyntaxError ''Unexpected end of JSON input'')
   \<and> \<not> is_chat_response (Inr JNull)
   \<and> requests (fire_request_timeout 0 (deliver [(0, Inr JNull)] (snd hello))) ! 0
       = Rejected (TypeError ''Cannot read properties of null'')"
  by (simp add: session_open_def is_chat_response_def hello_eval open_session_eval
      socket_message_def on_message_def send_to_window_def responseHandler_def ws_off_def
      clearTimeout_def settle_def fire_request_timeout_def request_timeout_def)

theorem chat_response_ignores_id_witness:
  "session_open open_session
   \<and> ws open_session = Some 0
   \<and> fst hello = 0
   \<and> frames_out (snd hello)
       = [(0, JObj [(''id'', JStr ''1700000000000''), (''type'', JStr ''chat''),
                    (''message'', JStr ''hello''), (''timestamp'', JStr ''2023-11-14T22:13:20.000Z'')])]
   \<and> benign status_frame
   \<and> map_of foreign_reply ''type'' = Some (JStr ''chat_response'')
   \<and> map_of foreign_reply ''id'' = Some (JStr ''42'')
   \<and> requests (socket_message 0 (Inr (JObj foreign_reply)) (deliver [(0, status_frame)] (snd hello))) ! 0
       = Fulfilled (JObj foreign_reply)"
proof -
  have quiet: "benign status_frame"
    by (simp add: benign_def is_chat_response_def handler_fails_def status_frame_def)
  then have all_quiet: "\<forall>f\<in>set [(0, status_frame)]. benign (snd f)" by simp
  have sock: "ws open_session = Some 0" by (simp add: open_session_eval)
  have sent: "sendToPython (JStr ''hello'') 1700000000000 ''2023-11-14T22:13:20.000Z'' open_session
                = (0, snd hello)"
    using hello_eval by (simp add: hello_def)
  have kind: "map_of foreign_reply ''type'' = Some (JStr ''chat_response'')"
    by (simp add: foreign_reply_def)
  have ident: "map_of foreign_reply ''id'' = Some (JStr ''42'')"
    by (simp add: foreign_reply_def)
  have frame: "frames_out (snd hello)
       = [(0, JObj [(''id'', JStr ''1700000000000''), (''type'', JStr ''chat''),
                    (''message'', JStr ''hello''), (''timestamp'', JStr ''2023-11-14T22:13:20.000Z'')])]"
    by (simp add: hello_eval open_session_eval fullMessage_def decimal.simps)
  from chat_response_ignores_id [OF open_session_is_open sock sent all_quiet kind]
    open_session_is_open sock quiet kind ident frame hello_fst
  show ?thesis by simp
qed

text \<open>
  A listener that runs after \<open>cleanup\<close> has set \<open>ws\<close> to \<open>null\<close>: \<open>ws.off\<close> throws in
  the \<open>try\<close> block and again in the \<open>catch\<close> block, the exception leaves the listener,
  the timer is cleared and the promise stays pending.
\<close>

lemma frame_after_cleanup:
  "uncaught (socket_message 0 (Inr (JObj foreign_reply)) (cleanup (snd hello)))
     = [TypeError ''Cannot read properties of null'']
   \<and> requests (socket_message 0 (Inr (JObj foreign_reply)) (cleanup (snd hello))) = [Pending]
   \<and> timers (socket_message 0 (Inr (JObj foreign_reply)) (cleanup (snd hello))) = []"
  by (simp add: hello_eval open_session_eval cleanup_def ws_close_def
      socket_message_def on_message_def send_to_window_def responseHandler_def ws_off_def
      clearTimeout_def settle_def foreign_reply_def)

text \<open>Two requests in flight: one reply fulfils both.\<close>

lemma one_reply_fulfils_two_requests:
  "requests (socket_message 0 (Inr (JObj foreign_reply))
      (snd (sendToPython (JStr ''second'') 1700000000001 ''2023-11-14T22:13:20.001Z'' (snd hello))))
   = [Fulfilled (JObj foreign_reply), Fulfilled (JObj foreign_reply)]"
  by (simp add: hello_eval open_session_eval sendToPython_def setTimeout_def
      socket_message_def on_message_def send_to_window_def responseHandler_def ws_off_def
      clearTimeout_def settle_def foreign_reply_def)

subsection \<open>Settings sync and request handlers\<close>

lemma set_readyState_fields [simp]:
  "store (set_readyState w r s) = store s" "currentPort (set_readyState w r s) = currentPort s"
  "http_out (set_readyState w r s) = http_out s" "mainWindow (set_readyState w r s) = mainWindow s"
  by (simp_all add: set_readyState_def)

lemma settingsData_store: "store s' = store s \<Longrightarrow> settingsData s' = settingsData s"
  by (simp add: settingsData_def store_get_def)

text \<open>
  C7. Whenever a socket reports \<open>open\<close>, in any state, the listener calls
  \<open>syncSettingsWithBackend\<close>; with a fetch implementation at hand this sends exactly one
  POST to \<open>/settings/sync-frontend\<close>, and every value of its body is the one found in the
  store at that moment (the default where the store has none).
\<close>

theorem sync_on_every_open:
  "http_out (socket_open w fetch_available s)
     = http_out s @ (if fetch_available then [sync_request (currentPort s) (settingsData s)] else [])
   \<and> settingsData s =
       JObj [(''jarvis-ai-model'',
                case store s ''jarvis-ai-model'' of Some v \<Rightarrow> v | None \<Rightarrow> JStr ''orca-mini-3b-gguf2-q4_0.gguf''),
             (''jarvis-voice-enabled'',
                case store s ''jarvis-voice-enabled'' of Some v \<Rightarrow> v | None \<Rightarrow> JBool True),
             (''jarvis-auto-start'',
                case store s ''jarvis-auto-start'' of Some v \<Rightarrow> v | None \<Rightarrow> JBool False),
             (''jarvis-backend-port'',
                case store s ''jarvis-backend-port'' of Some v \<Rightarrow> v | None \<Rightarrow> JStr ''8000''),
             (''jarvis-theme'',
                case store s ''jarvis-theme'' of Some v \<Rightarrow> v | None \<Rightarrow> JStr ''dark'')]"
proof -
  have "settingsData (send_to_window n (set_readyState w OPEN s)) = settingsData s" for n
    by (rule settingsData_store) (simp add: send_to_window_def)
  moreover have "settingsData (set_readyState w OPEN s) = settingsData s"
    by (rule settingsData_store) simp
  ultimately show ?thesis
    by (simp add: socket_open_def on_open_def syncSettingsWithBackend_def send_to_window_def
        sync_request_def settingsData_def store_get_def)
qed

lemma before_reconnect_eval:
  "fire_reconnect 5000 (socket_close 0
      (save_settings [(''jarvis-ai-model'', JStr ''mistral-7b-openorca.gguf2.Q4_0.gguf'')] open_session))
   = \<lparr> pythonProcess = None, ws = Some 1, isQuitting = False, currentPort = Num 8000,
       mainWindow = True,
       store = [''jarvis-ai-model'' \<mapsto> JStr ''mistral-7b-openorca.gguf2.Q4_0.gguf''],
       procs = [],
       socks = [\<lparr>readyState = CLOSED, listeners = []\<rparr>, \<lparr>readyState = CONNECTING, listeners = []\<rparr>],
       timers = [], requests = [], signals = [], frames_out = [],
       notifications = [BackendStatus True (Some True) (Some (Num 8000)),
                        BackendStatus False None (Some (Num 8000))],
       http_out = [sync_request (Num 8000) (settingsData (initial Map.empty))],
       uncaught = [] \<rparr>"
  by (simp add: open_session_def socket_open_def on_open_def set_readyState_def
      connectWebSocket_def valid_port_def initial_def send_to_window_def
      syncSettingsWithBackend_def settingsData_def store_get_def save_settings_def
      socket_close_def on_close_def setTimeout_def pythonRunning_def fire_reconnect_def
      reconnect_def sync_request_def)

theorem sync_on_every_open_witness:
  "map (\<lambda>r. (path r, http_method r, map_option (\<lambda>b. case b of JObj props \<Rightarrow> map_of props ''jarvis-ai-model'' | _ \<Rightarrow> None) (body r)))
     (http_out reconnected)
   = [(''/settings/sync-frontend'', ''POST'', Some (Some (JStr ''orca-mini-3b-gguf2-q4_0.gguf''))),
      (''/settings/sync-frontend'', ''POST'', Some (Some (JStr ''mistral-7b-openorca.gguf2.Q4_0.gguf'')))]"
  unfolding reconnected_def
  using sync_on_every_open [of 1 True "fire_reconnect 5000 (socket_close 0
      (save_settings [(''jarvis-ai-model'', JStr ''mistral-7b-openorca.gguf2.Q4_0.gguf'')] open_session))"]
  by (simp add: before_reconnect_eval sync_request_def settingsData_def store_get_def initial_def)

text \<open>
  C9. The handlers of \<open>send-message\<close> and \<open>send-backend-request\<close> never throw. A
  rejection of the promise of \<open>sendToPython\<close>, and any exception inside the \<open>try\<close> block
  of \<open>send-backend-request\<close>, comes back as the object \<open>{success: false, error}\<close>; so does
  an HTTP status outside 200 to 299, with the error text "HTTP status: statusText". (An
  exception that leaves a WebSocket listener is raised outside these handlers; the state
  records it in \<open>uncaught\<close>.)
\<close>

theorem handlers_catch_everything:
  "(\<forall>e. send_message_handler p \<noteq> Some (Threw e))
   \<and> send_message_handler (Rejected err) = Some (Replied (failure err))
   \<and> (\<forall>e. fst (send_backend_request fetch_available request outcome s) \<noteq> Threw e)
   \<and> (fst (send_backend_request_body fetch_available request outcome s) = Inl err
        \<longrightarrow> fst (send_backend_request fetch_available request outcome s) = Replied (failure err))
   \<and> (url r = Some u \<and> \<not> ok status
        \<longrightarrow> fst (send_backend_request True (Some r) (HttpResponse status phrase parsed) s)
            = Replied (failure (Error (''HTTP '' @ decimal status @ '': '' @ phrase))))"
  by (auto simp: send_message_handler_def await_def send_backend_request_def
      send_backend_request_body_def Let_def split: promise.splits sum.splits option.splits
      prod.splits fetch_outcome.splits)

theorem handlers_catch_everything_witness:
  "send_message_handler
     (requests (snd (sendToPython (JStr ''hello'') 1700000000000 ''2023-11-14T22:13:20.000Z'' (initial Map.empty))) ! 0)
     = Some (Replied (JObj [(''success'', JBool False), (''error'', JStr ''WebSocket not connected'')]))
   \<and> url switch_request = Some ''/model/switch''
   \<and> \<not> ok 500
   \<and> fst (send_backend_request True (Some switch_request)
         (HttpResponse 500 ''Internal Server Error'' (Inr JNull)) open_session)
       = Replied (JObj [(''success'', JBool False), (''error'', JStr ''HTTP 500: Internal Server Error'')])
   \<and> fst (send_backend_request True None (FetchRejected (TypeError ''fetch failed'')) open_session)
       = Replied (JObj [(''success'', JBool False), (''error'', JStr ''Cannot read properties of undefined'')])"
proof -
  have r: "requests (snd (sendToPython (JStr ''hello'') 1700000000000 ''2023-11-14T22:13:20.000Z'' (initial Map.empty))) ! 0
             = Rejected (Error ''WebSocket not connected'')"
    by (simp add: sendToPython_def initial_def)
  have u: "url switch_request = Some ''/model/switch''" by (simp add: switch_request_def)
  have n: "\<not> ok 500" by (simp add: ok_def)
  have d: "decimal 500 = ''500''" by (simp add: decimal.simps)
  have b: "fst (send_backend_request_body True None (FetchRejected (TypeError ''fetch failed'')) open_session)
             = Inl (TypeError ''Cannot read properties of undefined'')"
    by (simp add: send_backend_request_body_def)
  from handlers_catch_everything [where err = "Error ''WebSocket not connected''"
      and r = switch_request and u = "''/model/switch''" and status = 500
      and phrase = "''Internal Server Error''" and parsed = "Inr JNull" and s = open_session]
    handlers_catch_everything [where err = "TypeError ''Cannot read properties of undefined''"
      and fetch_available = True and request = None
      and outcome = "FetchRejected (TypeError ''fetch failed'')" and s = open_session]
    r u n d b
  show ?thesis by (simp add: failure_def)
qed

subsection \<open>Model switch workflow\<close>

lemma settings_html_fields [simp]:
  "modelStatus settings_html" "modelStatusText settings_html" "downloadProgress settings_html"
  "progressFill settings_html" "progressText settings_html"
  by (simp_all add: settings_html_def)

lemma modelChanged_calls [simp]: "modelChanged f env (sendBackendRequest c p) = modelChanged f env p"
  by (simp add: modelChanged_def sendBackendRequest_def)

lemma save_frontend_settings_fields [simp]:
  "backend_calls (save_frontend_settings f p) = backend_calls p"
  "ipc_saves (save_frontend_settings f p) = ipc_saves p"
  "intervals (save_frontend_settings f p) = intervals p"
  "unhandled (save_frontend_settings f p) = unhandled p"
  by (simp_all add: save_frontend_settings_def Let_def)

text \<open>The tests of the callback on \<open>status\<close> and \<open>progress\<close>, in terms of the fields of the answer.\<close>

lemma status_completed: "status_of r = ''completed'' \<longleftrightarrow> download_status r = Some ''completed''"
  by (auto simp: status_of_def or_default_def split: option.splits)

lemma status_failed: "status_of r = ''failed'' \<longleftrightarrow> download_status r = Some ''failed''"
  by (auto simp: status_of_def or_default_def split: option.splits)

lemma progress_reached:
  "100 \<le> progress_of r \<longleftrightarrow> (case progress r of Some x \<Rightarrow> 100 \<le> x | None \<Rightarrow> False)"
  by (simp add: progress_of_def split: option.splits)

lemma callback_test_complete:
  "(status_of r = ''completed'' \<or> 100 \<le> progress_of r) \<longleftrightarrow> reports_complete r"
  by (simp add: reports_complete_def status_completed progress_reached)

lemma poll_tick_continues:
  "continues tk \<Longrightarrow> poll_tick settings_html i tk p = sendBackendRequest ModelProgress p"
  by (auto simp: continues_def poll_tick_def Let_def callback_test_complete status_failed
      reports_failed_def split: option.splits if_splits)

lemma poll_tick_complete:
  assumes "download_complete tk" "succeeded (tick_switch_reply tk)"
  shows "poll_tick settings_html i tk p =
           p\<lparr>backend_calls := backend_calls p @ [ModelProgress, ModelSwitch (interval_model (intervals p ! i))],
             intervals := (intervals p)[i := (intervals p ! i)\<lparr>active := False\<rparr>],
             statusText := ''Model loaded successfully!'',
             statusClass := ''status-text success'',
             localStorage := (localStorage p)(''jarvis-ai-model'' \<mapsto> interval_model (intervals p ! i)),
             ipc_saves := ipc_saves p @ [interval_model (intervals p ! i)]\<rparr>"
  using assms
  by (auto simp: download_complete_def poll_tick_def Let_def callback_test_complete
      sendBackendRequest_def persist_model_def clearInterval_def split: option.splits)

text \<open>What any run of any callback leaves alone.\<close>

lemma clear_twice [simp]:
  "xs[i := (xs[i := x\<lparr>active := False\<rparr>] ! i)\<lparr>active := False\<rparr>] = xs[i := x\<lparr>active := False\<rparr>]"
  by (cases "i < length xs") (simp_all add: list_update_beyond not_less)

lemma poll_tick_calls:
  "\<exists>ext. backend_calls (poll_tick els i tk p) = backend_calls p @ ext \<and> (\<forall>x. ModelDownload x \<notin> set ext)"
  by (auto simp: poll_tick_def Let_def sendBackendRequest_def persist_model_def fail_tick_def
      clearInterval_def split: option.splits)

lemma poll_tick_intervals:
  "intervals (poll_tick els i tk p) = intervals p
   \<or> intervals (poll_tick els i tk p) = (intervals p)[i := (intervals p ! i)\<lparr>active := False\<rparr>]"
  by (auto simp: poll_tick_def Let_def sendBackendRequest_def persist_model_def fail_tick_def
      clearInterval_def split: option.splits)

lemma poll_tick_length: "length (intervals (poll_tick els i tk p)) = length (intervals p)"
  using poll_tick_intervals [of els i tk p] by auto

lemma poll_tick_other: "j \<noteq> i \<Longrightarrow> intervals (poll_tick els i tk p) ! j = intervals p ! j"
  using poll_tick_intervals [of els i tk p] by auto

lemma poll_tick_inactive:
  "j < length (intervals p) \<Longrightarrow> \<not> active (intervals p ! j)
   \<Longrightarrow> \<not> active (intervals (poll_tick els i tk p) ! j)"
  using poll_tick_intervals [of els i tk p] by (cases "i = j") auto

lemma run_polling_append:
  "run_polling els (xs @ ys) p = run_polling els ys (run_polling els xs p)"
  by (induction xs arbitrary: p) auto

lemma run_polling_length: "length (intervals (run_polling els evs p)) = length (intervals p)"
  by (induction evs arbitrary: p) (auto simp: poll_tick_length)

lemma run_polling_inactive:
  "j < length (intervals p) \<Longrightarrow> \<not> active (intervals p ! j)
   \<Longrightarrow> \<not> active (intervals (run_polling els evs p) ! j)"
proof (induction evs arbitrary: p)
  case Nil
  then show ?case by simp
next
  case (Cons e evs)
  obtain i tk where e: "e = (i, tk)" by (cases e)
  let ?p' = "if i < length (intervals p) \<and> active (intervals p ! i) then poll_tick els i tk p else p"
  from Cons.prems have "j < length (intervals ?p')" "\<not> active (intervals ?p' ! j)"
    by (simp_all add: poll_tick_length poll_tick_inactive)
  from Cons.IH [OF this] e show ?case by simp
qed

lemma run_polling_all_inactive:
  "\<forall>iv\<in>set (intervals p). \<not> active iv \<Longrightarrow> run_polling els evs p = p"
proof (induction evs)
  case Nil
  then show ?case by simp
next
  case (Cons e evs)
  obtain i tk where e: "e = (i, tk)" by (cases e)
  from Cons.prems have "\<not> (i < length (intervals p) \<and> active (intervals p ! i))"
    using nth_mem by blast
  with Cons e show ?case by auto
qed

lemma run_polling_calls:
  "\<exists>ext. backend_calls (run_polling els evs p) = backend_calls p @ ext \<and> (\<forall>x. ModelDownload x \<notin> set ext)"
proof (induction evs arbitrary: p)
  case Nil
  then show ?case by simp
next
  case (Cons e evs)
  obtain i tk where e: "e = (i, tk)" by (cases e)
  let ?p' = "if i < length (intervals p) \<and> active (intervals p ! i) then poll_tick els i tk p else p"
  from poll_tick_calls [of els i tk p] obtain e1 where
    e1: "backend_calls ?p' = backend_calls p @ e1" "\<forall>x. ModelDownload x \<notin> set e1"
    by (cases "i < length (intervals p) \<and> active (intervals p ! i)") auto
  from Cons.IH [of ?p'] obtain e2 where
    e2: "backend_calls (run_polling els evs ?p') = backend_calls ?p' @ e2" "\<forall>x. ModelDownload x \<notin> set e2"
    by blast
  from e1 e2 have "backend_calls (run_polling els evs ?p') = backend_calls p @ (e1 @ e2)"
    "\<forall>x. ModelDownload x \<notin> set (e1 @ e2)" by simp_all
  with e show ?case by (intro exI [of _ "e1 @ e2"]) simp
qed

text \<open>
  While the callbacks of interval \<open>n\<close> see neither completion nor failure, that interval
  stays as it is, whatever the callbacks of other intervals do.
\<close>

lemma run_polling_waiting:
  assumes "\<forall>e\<in>set evs. fst e = n \<longrightarrow> continues (snd e)"
  shows "n < length (intervals p) \<Longrightarrow> intervals p ! n = iv
         \<Longrightarrow> intervals (run_polling settings_html evs p) ! n = iv"
  using assms
proof (induction evs arbitrary: p)
  case Nil
  then show ?case by simp
next
  case (Cons e evs)
  obtain i tk where e: "e = (i, tk)" by (cases e)
  let ?p' = "if i < length (intervals p) \<and> active (intervals p ! i)
             then poll_tick settings_html i tk p else p"
  have keep: "intervals ?p' ! n = iv"
  proof (cases "i = n")
    case True
    with Cons.prems(3) e have "continues tk" by simp
    with Cons.prems(2) show ?thesis by (simp add: poll_tick_continues sendBackendRequest_def)
  next
    case False
    with Cons.prems(2) show ?thesis by (simp add: poll_tick_other)
  qed
  from Cons.prems(1) have len: "n < length (intervals ?p')" by (simp add: poll_tick_length)
  from Cons.prems(3) have "\<forall>e\<in>set evs. fst e = n \<longrightarrow> continues (snd e)" by simp
  from Cons.IH [OF len keep this] e show ?case by simp
qed

lemma run_polling_only_waiting:
  assumes "\<forall>e\<in>set evs. fst e = n \<and> continues (snd e)"
  shows "n < length (intervals p) \<Longrightarrow> active (intervals p ! n)
         \<Longrightarrow> run_polling settings_html evs p
               = p\<lparr>backend_calls := backend_calls p @ replicate (length evs) ModelProgress\<rparr>"
  using assms
proof (induction evs arbitrary: p)
  case Nil
  then show ?case by simp
next
  case (Cons e evs)
  obtain i tk where e: "e = (i, tk)" by (cases e)
  from Cons.prems(3) e have i: "i = n" and c: "continues tk" by simp_all
  let ?p' = "sendBackendRequest ModelProgress p"
  from Cons.prems have p': "n < length (intervals ?p')" "active (intervals ?p' ! n)"
    by (simp_all add: sendBackendRequest_def)
  from Cons.prems(3) have "\<forall>e\<in>set evs. fst e = n \<and> continues (snd e)" by simp
  from Cons.IH [OF p' this] Cons.prems(1,2) e i c
  show ?case
    by (simp add: poll_tick_continues sendBackendRequest_def replicate_append_same)
qed


lemma saveSettingsInternal_available:
  assumes "modelChanged f env p" "check_reply env = Some c" "success c" "available c"
  shows "snd (saveSettingsInternal settings_html f env p) =
           (let p2 = sendBackendRequest (ModelSwitch (selectedModel f))
                       (sendBackendRequest (ModelCheck (selectedModel f))
                          (save_frontend_settings f (sendBackendRequest ModelCurrent p)))
            in if succeeded (switch_reply env)
               then showSuccessMessage settings_html
                      (''Successfully switched to '' @ selectedModel f @ ''!'')
                      (persist_model (selectedModel f) p2)
               else showErrorMessage settings_html
                      (''Model switching failed: Failed to switch model: '' @
                       or_default (error_of (switch_reply env)) ''Unknown error'' @
                       ''. Other settings have been applied.'') p2)"
  using assms by (simp add: saveSettingsInternal_def handle_model_change_def Let_def)

lemma saveSettingsInternal_missing:
  assumes "modelChanged f env p" "check_reply env = Some c" "success c" "\<not> available c"
  shows "snd (saveSettingsInternal settings_html f env p) =
           (case downloadAndSwitchModel settings_html (selectedModel f) (download_reply env)
                   (showInfoMessage settings_html (''Downloading '' @ selectedModel f @ ''...'')
                      (sendBackendRequest (ModelCheck (selectedModel f))
                         (save_frontend_settings f (sendBackendRequest ModelCurrent p)))) of
              (True, p2) \<Rightarrow>
                showSuccessMessage settings_html
                  (''Successfully downloaded and switched to '' @ selectedModel f @ ''!'') p2
            | (False, p2) \<Rightarrow> p2)"
  using assms by (simp add: saveSettingsInternal_def handle_model_change_def Let_def)

lemma switch_when_available:
  assumes "modelChanged f env p" "check_reply env = Some c" "success c" "available c"
  shows "backend_calls (snd (saveSettingsInternal settings_html f env p))
           = backend_calls p @ [ModelCurrent, ModelCheck (selectedModel f), ModelSwitch (selectedModel f)]"
    and "intervals (snd (saveSettingsInternal settings_html f env p)) = intervals p"
    and "succeeded (switch_reply env) \<Longrightarrow>
           localStorage (snd (saveSettingsInternal settings_html f env p)) ''jarvis-ai-model''
             = Some (selectedModel f)
           \<and> ipc_saves (snd (saveSettingsInternal settings_html f env p)) = ipc_saves p @ [selectedModel f]
           \<and> statusText (snd (saveSettingsInternal settings_html f env p))
               = ''Successfully switched to '' @ selectedModel f @ ''!''
           \<and> statusClass (snd (saveSettingsInternal settings_html f env p)) = ''status-text success''"
  using assms
  by (simp_all add: saveSettingsInternal_available Let_def showSuccessMessage_def
      showErrorMessage_def show_message_def persist_model_def sendBackendRequest_def)

lemma download_started:
  assumes "modelChanged f env p" "check_reply env = Some c" "success c" "\<not> available c"
  shows "backend_calls (snd (saveSettingsInternal settings_html f env p))
           = backend_calls p @ [ModelCurrent, ModelCheck (selectedModel f), ModelDownload (selectedModel f)]"
    and "succeeded (download_reply env) \<Longrightarrow>
           intervals (snd (saveSettingsInternal settings_html f env p))
             = intervals p @ [\<lparr>interval_model = selectedModel f, active = True\<rparr>]"
    and "succeeded (download_reply env) \<Longrightarrow>
           ipc_saves (snd (saveSettingsInternal settings_html f env p)) = ipc_saves p"
    and "succeeded (download_reply env) \<Longrightarrow>
           unhandled (snd (saveSettingsInternal settings_html f env p)) = unhandled p"
  using assms
  by (simp_all add: saveSettingsInternal_missing downloadAndSwitchModel_def Let_def
      showSuccessMessage_def showInfoMessage_def show_message_def sendBackendRequest_def)

lemma switch_after_download:
  assumes "modelChanged f env p" "check_reply env = Some c" "success c" "\<not> available c"
    and "succeeded (download_reply env)"
    and "\<forall>e\<in>set evs. fst e = length (intervals p) \<longrightarrow> continues (snd e)"
    and "download_complete final" "succeeded (tick_switch_reply final)"
  shows "(\<exists>ext. backend_calls (model_switch settings_html f env (evs @ [(length (intervals p), final)]) p)
                  = backend_calls p
                      @ [ModelCurrent, ModelCheck (selectedModel f), ModelDownload (selectedModel f)]
                      @ ext @ [ModelProgress, ModelSwitch (selectedModel f)]
                \<and> (\<forall>x. ModelDownload x \<notin> set ext))
         \<and> localStorage (model_switch settings_html f env (evs @ [(length (intervals p), final)]) p)
             ''jarvis-ai-model'' = Some (selectedModel f)
         \<and> (\<exists>saved. ipc_saves (model_switch settings_html f env (evs @ [(length (intervals p), final)]) p)
                      = saved @ [selectedModel f])
         \<and> statusText (model_switch settings_html f env (evs @ [(length (intervals p), final)]) p)
             = ''Model loaded successfully!''
         \<and> statusClass (model_switch settings_html f env (evs @ [(length (intervals p), final)]) p)
             = ''status-text success''
         \<and> \<not> active (intervals (model_switch settings_html f env (evs @ [(length (intervals p), final)]) p)
                        ! length (intervals p))
         \<and> \<not> active (intervals (run_polling settings_html later
                          (model_switch settings_html f env (evs @ [(length (intervals p), final)]) p))
                        ! length (intervals p))"
proof -
  let ?n = "length (intervals p)"
  let ?m = "selectedModel f"
  let ?iv = "\<lparr>interval_model = ?m, active = True\<rparr>"
  let ?q = "snd (saveSettingsInternal settings_html f env p)"
  let ?q1 = "run_polling settings_html evs ?q"
  let ?R = "model_switch settings_html f env (evs @ [(?n, final)]) p"
  note start = download_started [OF assms(1-4)]
  from start(2) [OF assms(5)] have q: "?n < length (intervals ?q)" "intervals ?q ! ?n = ?iv"
    by simp_all
  from run_polling_waiting [OF assms(6) q] have iv1: "intervals ?q1 ! ?n = ?iv" .
  from q(1) have len1: "?n < length (intervals ?q1)" by (simp add: run_polling_length)
  from run_polling_calls [of settings_html evs ?q] obtain ext where
    ext: "backend_calls ?q1 = backend_calls ?q @ ext" "\<forall>x. ModelDownload x \<notin> set ext" by blast
  have R: "?R = poll_tick settings_html ?n final ?q1"
    using len1 iv1 by (simp add: model_switch_def run_polling_append)
  note finish = poll_tick_complete [OF assms(7,8), of ?n ?q1]
  have calls: "backend_calls ?R = backend_calls p
                 @ [ModelCurrent, ModelCheck ?m, ModelDownload ?m] @ ext @ [ModelProgress, ModelSwitch ?m]"
    unfolding R finish using ext(1) start(1) iv1 by simp
  have stored: "localStorage ?R ''jarvis-ai-model'' = Some ?m"
    and saved: "ipc_saves ?R = ipc_saves ?q1 @ [?m]"
    and line: "statusText ?R = ''Model loaded successfully!''" "statusClass ?R = ''status-text success''"
    unfolding R finish using iv1 by simp_all
  have stopped: "\<not> active (intervals ?R ! ?n)" and lenR: "?n < length (intervals ?R)"
    unfolding R finish using len1 by simp_all
  from run_polling_inactive [OF lenR stopped]
  have terminal: "\<not> active (intervals (run_polling settings_html later ?R) ! ?n)" .
  from calls ext(2) stored saved line stopped terminal show ?thesis by blast
qed

lemma switch_after_download_alone:
  assumes "modelChanged f env p" "check_reply env = Some c" "success c" "\<not> available c"
    and "succeeded (download_reply env)"
    and "\<forall>e\<in>set evs. fst e = length (intervals p) \<and> continues (snd e)"
    and "download_complete final" "succeeded (tick_switch_reply final)"
  shows "backend_calls (model_switch settings_html f env (evs @ [(length (intervals p), final)]) p)
           = backend_calls p
               @ [ModelCurrent, ModelCheck (selectedModel f), ModelDownload (selectedModel f)]
               @ replicate (length evs) ModelProgress
               @ [ModelProgress, ModelSwitch (selectedModel f)]
         \<and> ipc_saves (model_switch settings_html f env (evs @ [(length (intervals p), final)]) p)
             = ipc_saves p @ [selectedModel f]
         \<and> unhandled (model_switch settings_html f env (evs @ [(length (intervals p), final)]) p)
             = unhandled p"
proof -
  let ?n = "length (intervals p)"
  let ?m = "selectedModel f"
  let ?q = "snd (saveSettingsInternal settings_html f env p)"
  let ?q1 = "?q\<lparr>backend_calls := backend_calls ?q @ replicate (length evs) ModelProgress\<rparr>"
  note start = download_started [OF assms(1-4)]
  from start(2) [OF assms(5)] have q: "?n < length (intervals ?q)" "active (intervals ?q ! ?n)"
    "interval_model (intervals ?q ! ?n) = ?m"
    by simp_all
  from run_polling_only_waiting [OF assms(6) q(1,2)]
  have q1: "run_polling settings_html evs ?q = ?q1" .
  have R: "model_switch settings_html f env (evs @ [(?n, final)]) p = poll_tick settings_html ?n final ?q1"
    using q by (simp add: model_switch_def run_polling_append q1)
  show ?thesis
    unfolding R poll_tick_complete [OF assms(7,8)]
    using start(1) start(3) [OF assms(5)] start(4) [OF assms(5)] q(3) by simp
qed

text \<open>
  C8. A press of Apply with a changed model, on the page as shipped, with a successful
  availability check, from any state of the page.

  If the model is available, the requests of the press are the current-model query, the
  check and the switch, in this order; no interval is made, and no callback that runs
  afterwards ever sends a download request; a successful switch stores the model in local
  storage, sends it to the main process with \<open>save-settings\<close>, and shows the success line.

  If the model is not available, the download request follows the check, and when the
  download has started a new interval polls for this model. Whatever the callbacks of
  other intervals do in between, as long as the callbacks of the new interval see neither
  completion nor failure, the first of its callbacks whose progress answer has status
  \<open>completed\<close> or progress of at least 100 sends the switch request for this model; a
  successful switch stores the model in local storage, sends it with \<open>save-settings\<close>,
  shows "Model loaded successfully!", and the interval is stopped and stays stopped. When no
  other interval fires in between, the requests are exactly the three of the press, one
  progress query per callback, and the switch.
\<close>

theorem model_switch_workflow:
  assumes "modelChanged f env p" "check_reply env = Some c" "success c"
  shows "(available c \<longrightarrow>
            backend_calls (snd (saveSettingsInternal settings_html f env p))
              = backend_calls p @ [ModelCurrent, ModelCheck (selectedModel f), ModelSwitch (selectedModel f)]
            \<and> intervals (snd (saveSettingsInternal settings_html f env p)) = intervals p
            \<and> (\<exists>ext. backend_calls (model_switch settings_html f env evs p)
                        = backend_calls p
                            @ [ModelCurrent, ModelCheck (selectedModel f), ModelSwitch (selectedModel f)]
                            @ ext
                      \<and> (\<forall>x. ModelDownload x \<notin> set ext))
            \<and> length (intervals (model_switch settings_html f env evs p)) = length (intervals p)
            \<and> ((\<forall>iv\<in>set (intervals p). \<not> active iv) \<longrightarrow>
                  model_switch settings_html f env evs p = snd (saveSettingsInternal settings_html f env p))
            \<and> (succeeded (switch_reply env) \<longrightarrow>
                 localStorage (snd (saveSettingsInternal settings_html f env p)) ''jarvis-ai-model''
                   = Some (selectedModel f)
                 \<and> ipc_saves (snd (saveSettingsInternal settings_html f env p))
                     = ipc_saves p @ [selectedModel f]
                 \<and> statusText (snd (saveSettingsInternal settings_html f env p))
                     = ''Successfully switched to '' @ selectedModel f @ ''!''
                 \<and> statusClass (snd (saveSettingsInternal settings_html f env p))
                     = ''status-text success''))
         \<and> (\<not> available c \<longrightarrow>
              backend_calls (snd (saveSettingsInternal settings_html f env p))
                = backend_calls p
                    @ [ModelCurrent, ModelCheck (selectedModel f), ModelDownload (selectedModel f)]
              \<and> (succeeded (download_reply env) \<longrightarrow>
                   intervals (snd (saveSettingsInternal settings_html f env p))
                     = intervals p @ [\<lparr>interval_model = selectedModel f, active = True\<rparr>])
              \<and> (succeeded (download_reply env)
                  \<and> (\<forall>e\<in>set evs. fst e = length (intervals p) \<longrightarrow> continues (snd e))
                  \<and> download_complete final \<and> succeeded (tick_switch_reply final) \<longrightarrow>
                    (\<exists>ext. backend_calls
                             (model_switch settings_html f env (evs @ [(length (intervals p), final)]) p)
                            = backend_calls p
                                @ [ModelCurrent, ModelCheck (selectedModel f), ModelDownload (selectedModel f)]
                                @ ext @ [ModelProgress, ModelSwitch (selectedModel f)]
                          \<and> (\<forall>x. ModelDownload x \<notin> set ext))
                    \<and> localStorage
                        (model_switch settings_html f env (evs @ [(length (intervals p), final)]) p)
                        ''jarvis-ai-model'' = Some (selectedModel f)
                    \<and> (\<exists>saved. ipc_saves
                                 (model_switch settings_html f env (evs @ [(length (intervals p), final)]) p)
                                = saved @ [selectedModel f])
                    \<and> statusText
                        (model_switch settings_html f env (evs @ [(length (intervals p), final)]) p)
                        = ''Model loaded successfully!''
                    \<and> statusClass
                        (model_switch settings_html f env (evs @ [(length (intervals p), final)]) p)
                        = ''status-text success''
                    \<and> \<not> active
                          (intervals
                             (model_switch settings_html f env (evs @ [(length (intervals p), final)]) p)
                           ! length (intervals p))
                    \<and> \<not> active
                          (intervals
                             (run_polling settings_html later
                                (model_switch settings_html f env (evs @ [(length (intervals p), final)]) p))
                           ! length (intervals p)))
              \<and> (succeeded (download_reply env)
                  \<and> (\<forall>e\<in>set evs. fst e = length (intervals p) \<and> continues (snd e))
                  \<and> download_complete final \<and> succeeded (tick_switch_reply final) \<longrightarrow>
                    backend_calls
                      (model_switch settings_html f env (evs @ [(length (intervals p), final)]) p)
                      = backend_calls p
                          @ [ModelCurrent, ModelCheck (selectedModel f), ModelDownload (selectedModel f)]
                          @ replicate (length evs) ModelProgress
                          @ [ModelProgress, ModelSwitch (selectedModel f)]
                    \<and> ipc_saves
                        (model_switch settings_html f env (evs @ [(length (intervals p), final)]) p)
                        = ipc_saves p @ [selectedModel f]
                    \<and> unhandled
                        (model_switch settings_html f env (evs @ [(length (intervals p), final)]) p)
                        = unhandled p))"
proof (intro conjI impI)
  assume av: "available c"
  note direct = switch_when_available [OF assms av]
  from direct(1) show "backend_calls (snd (saveSettingsInternal settings_html f env p))
      = backend_calls p @ [ModelCurrent, ModelCheck (selectedModel f), ModelSwitch (selectedModel f)]" .
  from direct(2) show "intervals (snd (saveSettingsInternal settings_html f env p)) = intervals p" .
  from run_polling_calls [of settings_html evs "snd (saveSettingsInternal settings_html f env p)"] direct(1)
  show "\<exists>ext. backend_calls (model_switch settings_html f env evs p)
                 = backend_calls p
                     @ [ModelCurrent, ModelCheck (selectedModel f), ModelSwitch (selectedModel f)] @ ext
               \<and> (\<forall>x. ModelDownload x \<notin> set ext)"
    by (auto simp: model_switch_def)
  from direct(2) show "length (intervals (model_switch settings_html f env evs p)) = length (intervals p)"
    by (simp add: model_switch_def run_polling_length)
  {
    assume "\<forall>iv\<in>set (intervals p). \<not> active iv"
    with direct(2) have "\<forall>iv\<in>set (intervals (snd (saveSettingsInternal settings_html f env p))). \<not> active iv"
      by simp
    then show "model_switch settings_html f env evs p = snd (saveSettingsInternal settings_html f env p)"
      by (simp add: model_switch_def run_polling_all_inactive)
  }
  {
    assume sw: "succeeded (switch_reply env)"
    from direct(3) [OF sw]
    show "localStorage (snd (saveSettingsInternal settings_html f env p)) ''jarvis-ai-model''
            = Some (selectedModel f)"
      and "ipc_saves (snd (saveSettingsInternal settings_html f env p)) = ipc_saves p @ [selectedModel f]"
      and "statusText (snd (saveSettingsInternal settings_html f env p))
             = ''Successfully switched to '' @ selectedModel f @ ''!''"
      and "statusClass (snd (saveSettingsInternal settings_html f env p)) = ''status-text success''"
      by simp_all
  }
next
  assume missing: "\<not> available c"
  from download_started(1) [OF assms missing]
  show "backend_calls (snd (saveSettingsInternal settings_html f env p))
          = backend_calls p @ [ModelCurrent, ModelCheck (selectedModel f), ModelDownload (selectedModel f)]" .
next
  assume missing: "\<not> available c" and dl: "succeeded (download_reply env)"
  from download_started(2) [OF assms missing dl]
  show "intervals (snd (saveSettingsInternal settings_html f env p))
          = intervals p @ [\<lparr>interval_model = selectedModel f, active = True\<rparr>]" .
next
  assume missing: "\<not> available c"
    and rest: "succeeded (download_reply env)
                 \<and> (\<forall>e\<in>set evs. fst e = length (intervals p) \<longrightarrow> continues (snd e))
                 \<and> download_complete final \<and> succeeded (tick_switch_reply final)"
  from rest have h: "succeeded (download_reply env)"
    "\<forall>e\<in>set evs. fst e = length (intervals p) \<longrightarrow> continues (snd e)"
    "download_complete final" "succeeded (tick_switch_reply final)" by simp_all
  note after = switch_after_download [OF assms missing h, of later]
  from after show "\<exists>ext. backend_calls
                             (model_switch settings_html f env (evs @ [(length (intervals p), final)]) p)
                            = backend_calls p
                                @ [ModelCurrent, ModelCheck (selectedModel f), ModelDownload (selectedModel f)]
                                @ ext @ [ModelProgress, ModelSwitch (selectedModel f)]
                          \<and> (\<forall>x. ModelDownload x \<notin> set ext)" by blast
  from after show "localStorage
                        (model_switch settings_html f env (evs @ [(length (intervals p), final)]) p)
                        ''jarvis-ai-model'' = Some (selectedModel f)" by blast
  from after show "\<exists>saved. ipc_saves
                                 (model_switch settings_html f env (evs @ [(length (intervals p), final)]) p)
                                = saved @ [selectedModel f]" by blast
  from after show "statusText
                        (model_switch settings_html f env (evs @ [(length (intervals p), final)]) p)
                        = ''Model loaded successfully!''" by blast
  from after show "statusClass
                        (model_switch settings_html f env (evs @ [(length (intervals p), final)]) p)
                        = ''status-text success''" by blast
  from after show "\<not> active
                          (intervals
                             (model_switch settings_html f env (evs @ [(length (intervals p), final)]) p)
                           ! length (intervals p))" by blast
  from after show "\<not> active
                          (intervals
                             (run_polling settings_html later
                                (model_switch settings_html f env (evs @ [(length (intervals p), final)]) p))
                           ! length (intervals p))" by blast
next
  assume missing: "\<not> available c"
    and rest: "succeeded (download_reply env)
                 \<and> (\<forall>e\<in>set evs. fst e = length (intervals p) \<and> continues (snd e))
                 \<and> download_complete final \<and> succeeded (tick_switch_reply final)"
  from rest have h: "succeeded (download_reply env)"
    "\<forall>e\<in>set evs. fst e = length (intervals p) \<and> continues (snd e)"
    "download_complete final" "succeeded (tick_switch_reply final)" by simp_all
  note alone = switch_after_download_alone [OF assms missing h]
  from alone show "backend_calls
                      (model_switch settings_html f env (evs @ [(length (intervals p), final)]) p)
                      = backend_calls p
                          @ [ModelCurrent, ModelCheck (selectedModel f), ModelDownload (selectedModel f)]
                          @ replicate (length evs) ModelProgress
                          @ [ModelProgress, ModelSwitch (selectedModel f)]" by blast
  from alone show "ipc_saves
                        (model_switch settings_html f env (evs @ [(length (intervals p), final)]) p)
                        = ipc_saves p @ [selectedModel f]" by blast
  from alone show "unhandled
                        (model_switch settings_html f env (evs @ [(length (intervals p), final)]) p)
                        = unhandled p" by blast
qed


text \<open>The definitions that the examples unfold.\<close>

lemmas page_defs =
  saveSettingsInternal_def handle_model_change_def downloadAndSwitchModel_def modelChanged_def
  save_frontend_settings_def selectedModel_def or_default_def default_model_def form_with_def
  backend_with_def backend_reply_def succeeded_def error_of_def sendBackendRequest_def
  showSuccessMessage_def showInfoMessage_def showErrorMessage_def show_message_def
  persist_model_def poll_tick_def progress_tick_def status_of_def progress_of_def
  clearInterval_def fail_tick_def model_switch_def fresh_page_def downloading_phi_def
  openorca_def phi_def bool_string_def Let_def

lemma selected_model: "m \<noteq> [] \<Longrightarrow> selectedModel (form_with m) = m"
  by (simp add: selectedModel_def or_default_def form_with_def)

theorem model_switch_workflow_witness:
  "modelChanged (form_with openorca) (backend_with True) fresh_page
   \<and> backend_calls (snd (saveSettingsInternal settings_html (form_with openorca) (backend_with True) fresh_page))
       = [ModelCurrent, ModelCheck openorca, ModelSwitch openorca]
   \<and> intervals (snd (saveSettingsInternal settings_html (form_with openorca) (backend_with True) fresh_page)) = []
   \<and> localStorage (snd (saveSettingsInternal settings_html (form_with openorca) (backend_with True) fresh_page))
       ''jarvis-ai-model'' = Some openorca
   \<and> ipc_saves (snd (saveSettingsInternal settings_html (form_with openorca) (backend_with True) fresh_page))
       = [openorca]
   \<and> modelChanged (form_with openorca) (backend_with False) fresh_page
   \<and> continues (progress_tick 40 ''downloading'') \<and> continues (progress_tick 85 ''downloading'')
   \<and> download_complete (progress_tick 100 ''downloading'')
   \<and> backend_calls (model_switch settings_html (form_with openorca) (backend_with False)
         [(0, progress_tick 40 ''downloading''), (0, progress_tick 85 ''downloading''),
          (0, progress_tick 100 ''downloading'')] fresh_page)
       = [ModelCurrent, ModelCheck openorca, ModelDownload openorca,
          ModelProgress, ModelProgress, ModelProgress, ModelSwitch openorca]
   \<and> localStorage (model_switch settings_html (form_with openorca) (backend_with False)
         [(0, progress_tick 40 ''downloading''), (0, progress_tick 85 ''downloading''),
          (0, progress_tick 100 ''downloading'')] fresh_page) ''jarvis-ai-model''
       = Some openorca
   \<and> ipc_saves (model_switch settings_html (form_with openorca) (backend_with False)
         [(0, progress_tick 40 ''downloading''), (0, progress_tick 85 ''downloading''),
          (0, progress_tick 100 ''downloading'')] fresh_page) = [openorca]
   \<and> intervals downloading_phi = [\<lparr>interval_model = phi, active = True\<rparr>]
   \<and> backend_calls downloading_phi = [ModelCurrent, ModelCheck phi, ModelDownload phi]
   \<and> modelChanged (form_with openorca) (backend_with False) downloading_phi
   \<and> continues (progress_tick 30 ''downloading'') \<and> continues (progress_tick 60 ''downloading'')
   \<and> download_complete (progress_tick 40 ''completed'')
   \<and> backend_calls (model_switch settings_html (form_with openorca) (backend_with False)
         [(0, progress_tick 30 ''downloading''), (1, progress_tick 40 ''downloading''),
          (0, progress_tick 60 ''downloading''), (1, progress_tick 40 ''completed'')] downloading_phi)
       = [ModelCurrent, ModelCheck phi, ModelDownload phi,
          ModelCurrent, ModelCheck openorca, ModelDownload openorca,
          ModelProgress, ModelProgress, ModelProgress, ModelProgress, ModelSwitch openorca]
   \<and> intervals (model_switch settings_html (form_with openorca) (backend_with False)
         [(0, progress_tick 30 ''downloading''), (1, progress_tick 40 ''downloading''),
          (0, progress_tick 60 ''downloading''), (1, progress_tick 40 ''completed'')] downloading_phi)
       = [\<lparr>interval_model = phi, active = True\<rparr>, \<lparr>interval_model = openorca, active = False\<rparr>]
   \<and> localStorage (model_switch settings_html (form_with openorca) (backend_with False)
         [(0, progress_tick 30 ''downloading''), (1, progress_tick 40 ''downloading''),
          (0, progress_tick 60 ''downloading''), (1, progress_tick 40 ''completed'')] downloading_phi)
         ''jarvis-ai-model'' = Some openorca
   \<and> statusText (model_switch settings_html (form_with openorca) (backend_with False)
         [(0, progress_tick 30 ''downloading''), (1, progress_tick 40 ''downloading''),
          (0, progress_tick 60 ''downloading''), (1, progress_tick 40 ''completed'')] downloading_phi)
       = ''Model loaded successfully!''"
proof -
  have sel: "selectedModel (form_with openorca) = openorca"
    by (simp add: selected_model openorca_def)
  have chk: "check_reply (backend_with a) = Some (backend_reply True a None None)" for a
    by (simp add: backend_with_def)
  have ok: "success (backend_reply True a None None)"
    and av: "available (backend_reply True a None None) = a" for a
    by (simp_all add: backend_reply_def)
  have sw: "succeeded (switch_reply (backend_with a))"
    and dl: "succeeded (download_reply (backend_with a))" for a
    by (simp_all add: backend_with_def succeeded_def backend_reply_def)
  have tsw: "succeeded (tick_switch_reply (progress_tick x st))" for x st
    by (simp add: progress_tick_def succeeded_def backend_reply_def)
  have waits: "continues (progress_tick 40 ''downloading'')" "continues (progress_tick 85 ''downloading'')"
    "continues (progress_tick 30 ''downloading'')" "continues (progress_tick 60 ''downloading'')"
    by (simp_all add: continues_def reports_complete_def reports_failed_def progress_tick_def
        backend_reply_def)
  have by_progress: "download_complete (progress_tick 100 ''downloading'')"
    and by_status: "download_complete (progress_tick 40 ''completed'')"
    by (simp_all add: download_complete_def reports_complete_def progress_tick_def backend_reply_def)
  have fresh: "intervals fresh_page = []" "backend_calls fresh_page = []" "ipc_saves fresh_page = []"
    by (simp_all add: fresh_page_def)
  have changed: "modelChanged (form_with openorca) (backend_with a) fresh_page" for a
    by (simp add: page_defs)
  have phi_page: "intervals downloading_phi = [\<lparr>interval_model = phi, active = True\<rparr>]"
    "backend_calls downloading_phi = [ModelCurrent, ModelCheck phi, ModelDownload phi]"
    "ipc_saves downloading_phi = []"
    by (simp_all add: page_defs)
  have changed_again: "modelChanged (form_with openorca) (backend_with False) downloading_phi"
    by (simp add: page_defs)
  have both: "intervals (model_switch settings_html (form_with openorca) (backend_with False)
         [(0, progress_tick 30 ''downloading''), (1, progress_tick 40 ''downloading''),
          (0, progress_tick 60 ''downloading''), (1, progress_tick 40 ''completed'')] downloading_phi)
       = [\<lparr>interval_model = phi, active = True\<rparr>, \<lparr>interval_model = openorca, active = False\<rparr>]"
    "backend_calls (model_switch settings_html (form_with openorca) (backend_with False)
         [(0, progress_tick 30 ''downloading''), (1, progress_tick 40 ''downloading''),
          (0, progress_tick 60 ''downloading''), (1, progress_tick 40 ''completed'')] downloading_phi)
       = [ModelCurrent, ModelCheck phi, ModelDownload phi,
          ModelCurrent, ModelCheck openorca, ModelDownload openorca,
          ModelProgress, ModelProgress, ModelProgress, ModelProgress, ModelSwitch openorca]"
    by (simp_all add: page_defs)
  have alone: "\<forall>e\<in>set [(0, progress_tick 40 ''downloading''), (0, progress_tick 85 ''downloading'')].
                 fst e = length (intervals fresh_page) \<and> continues (snd e)"
    using waits fresh by simp
  have mixed: "\<forall>e\<in>set [(0, progress_tick 30 ''downloading''), (1, progress_tick 40 ''downloading''),
                          (0, progress_tick 60 ''downloading'')].
                 fst e = length (intervals downloading_phi) \<longrightarrow> continues (snd e)"
    using waits phi_page by simp
  from model_switch_workflow [OF changed chk ok, of True "[]"]
    model_switch_workflow [OF changed chk ok, of False
      "[(0, progress_tick 40 ''downloading''), (0, progress_tick 85 ''downloading'')]"
      "progress_tick 100 ''downloading''"]
    model_switch_workflow [OF changed_again chk ok,
      of "[(0, progress_tick 30 ''downloading''), (1, progress_tick 40 ''downloading''),
           (0, progress_tick 60 ''downloading'')]" "progress_tick 40 ''completed''"]
    changed changed_again av sw dl tsw waits by_progress by_status fresh phi_page both alone mixed sel
  show ?thesis by simp
qed

end
